theory Spec2Isabelle
  imports Complex_Main "HOL-Library.Sublist"
begin

section \<open>JavaScript values\<close>

text \<open>
  A decoded JSON value, as \<^verbatim>\<open>JSON.parse\<close> returns it. An object is the list of its
  members in order. Numbers are abstracted to reals.
\<close>

datatype json =
    JNull
  | JBool bool
  | JNum real
  | JStr string
  | JArr "json list"
  | JObj "(string \<times> json) list"

text \<open>
  A thrown value. The properties are the ones the program reads: \<^verbatim>\<open>message\<close>,
  \<^verbatim>\<open>code\<close>, \<^verbatim>\<open>status\<close> and \<^verbatim>\<open>response.status\<close>; \<^verbatim>\<open>name\<close> tells an \<^verbatim>\<open>Error\<close> from
  a \<^verbatim>\<open>TypeError\<close> or a \<^verbatim>\<open>SyntaxError\<close>, and \<^verbatim>\<open>cause\<close> is the standard place where
  an error carries the error it was made from. \<open>None\<close> is \<^verbatim>\<open>undefined\<close>.
\<close>

datatype js_error =
  JsError (err_name: string) (err_message: "string option") (err_code: "string option")
    (err_status: "nat option") (err_response_status: "nat option") (err_cause: "js_error option")

text \<open>\<^verbatim>\<open>new Error(msg)\<close>, \<^verbatim>\<open>new TypeError(msg)\<close>: only name and message are set.\<close>

definition new_Error :: "string \<Rightarrow> js_error" where
  "new_Error msg = JsError ''Error'' (Some msg) None None None None"

definition new_TypeError :: "string \<Rightarrow> js_error" where
  "new_TypeError msg = JsError ''TypeError'' (Some msg) None None None None"

text \<open>Truthiness of a value that is a string or \<^verbatim>\<open>undefined\<close>/\<^verbatim>\<open>null\<close>: the empty string is falsy.\<close>

definition truthy :: "string option \<Rightarrow> bool" where
  "truthy v = (case v of None \<Rightarrow> False | Some s \<Rightarrow> s \<noteq> [])"

text \<open>Truthiness of a number or \<^verbatim>\<open>undefined\<close>, and \<^verbatim>\<open>a || b\<close> on such values.\<close>

definition js_or :: "nat option \<Rightarrow> nat option \<Rightarrow> nat option" where
  "js_or a b = (case a of None \<Rightarrow> b | Some n \<Rightarrow> if n = 0 then b else Some n)"

text \<open>A value interpolated into a template literal: \<^verbatim>\<open>undefined\<close> prints as its name.\<close>

definition tmpl :: "string option \<Rightarrow> string" where
  "tmpl v = (case v of None \<Rightarrow> ''undefined'' | Some s \<Rightarrow> s)"

text \<open>\<^verbatim>\<open>s.includes(needle)\<close>: the needle occurs as a contiguous run of \<open>s\<close>.\<close>

definition str_includes :: "string \<Rightarrow> string \<Rightarrow> bool" where
  "str_includes s needle = sublist needle s"

text \<open>\<^verbatim>\<open>s.replace(/\/$/, '')\<close>: one trailing slash, if there is one, is removed.\<close>

definition strip_trailing_slash :: "string \<Rightarrow> string" where
  "strip_trailing_slash s = (if s \<noteq> [] \<and> last s = CHR ''/'' then butlast s else s)"

section \<open>The analysis schema\<close>

text \<open>
  The subset of JSON Schema that \<^verbatim>\<open>customerServiceSchema\<close> is written in. Each constructor
  keeps the keywords the source gives for that type, the description last.
\<close>

datatype schema =
    StringT "string list option" "string option"
  | NumberT "real option" "real option" "string option"
  | ArrayT schema "string option"
  | ObjectT "(string \<times> schema) list" "string list" "bool option"

definition keyInformationSchema :: schema where
  "keyInformationSchema = ObjectT
     [(''orderNumber'', StringT None (Some ''Extracted order number'')),
      (''customerEmail'', StringT None (Some ''Customer email address'')),
      (''productSKU'', StringT None (Some ''Product mentioned'')),
      (''issueDate'', StringT None (Some ''When issue occurred'')),
      (''customerPhone'', StringT None (Some ''Customer phone number''))]
     [''orderNumber'', ''customerEmail'', ''productSKU'', ''issueDate'', ''customerPhone'']
     (Some False)"

definition customerServiceSchema :: schema where
  "customerServiceSchema = ObjectT
     [(''sentiment'',
         StringT (Some [''positive'', ''neutral'', ''negative'', ''frustrated''])
           (Some ''Overall customer sentiment'')),
      (''escalationRisk'',
         StringT (Some [''low'', ''medium'', ''high'']) (Some ''Risk of customer escalation'')),
      (''primaryIntent'', StringT None (Some ''Main reason for customer contact'')),
      (''keyInformation'', keyInformationSchema),
      (''suggestedActions'', ArrayT (StringT None None) (Some ''Recommended next steps'')),
      (''commitments'', ArrayT (StringT None None) (Some ''Promises made to customer'')),
      (''confidenceScore'', NumberT (Some 0) (Some 1) (Some ''Analysis confidence level'')),
      (''summary'', StringT None (Some ''Brief case summary for CRM''))]
     [''sentiment'', ''escalationRisk'', ''primaryIntent'', ''keyInformation'',
      ''suggestedActions'', ''commitments'', ''confidenceScore'', ''summary'']
     (Some False)"

section \<open>Configuration and the client\<close>

text \<open>\<^verbatim>\<open>process.env\<close>: the three variables the module reads; \<open>None\<close> is an unset variable.\<close>

record env =
  AZURE_OPENAI_ENDPOINT :: "string option"
  AZURE_OPENAI_KEY :: "string option"
  AZURE_OPENAI_DEPLOYMENT :: "string option"

text \<open>The options object given to \<^verbatim>\<open>new OpenAI(...)\<close>.\<close>

record client =
  apiKey :: string
  baseURL :: string
  defaultQuery :: "(string \<times> string) list"
  defaultHeaders :: "(string \<times> string) list"

record chat_message =
  role :: string
  content :: string

record json_schema_format =
  name :: string
  strict :: bool
  schema :: schema

record response_format =
  rtype :: string
  json_schema :: json_schema_format

text \<open>
  The argument of \<^verbatim>\<open>chat.completions.create\<close>. A property that the object literal does
  not have is \<open>None\<close>.
\<close>

record params =
  model :: "string option"
  messages :: "chat_message list"
  response_format :: response_format
  temperature :: "real option"
  max_tokens :: "nat option"
  max_completion_tokens :: "nat option"

text \<open>The completion the provider returns, down to the properties the program reads.\<close>

record completion_message =
  mcontent :: "string option"

record choice =
  finish_reason :: "string option"
  message :: "completion_message option"

record response =
  choices :: "choice list option"

text \<open>
  The module state: the variable \<^verbatim>\<open>openaiClient\<close> (\<open>None\<close> is \<^verbatim>\<open>null\<close>), and the
  requests made so far, in order, each with the client that made it. A request is one call
  of \<^verbatim>\<open>chat.completions.create\<close>.
\<close>

record app_state =
  openaiClient :: "client option"
  outbound :: "(client \<times> params) list"

text \<open>
  The provider, seen from the program: the outcome of the \<open>n\<close>-th request (counted from 0)
  made by a client with given parameters, a thrown error or a completion. What the client
  library sends over HTTP for one request is a later section.
\<close>

type_synonym transport = "nat \<Rightarrow> client \<Rightarrow> params \<Rightarrow> js_error + response"

text \<open>\<^verbatim>\<open>JSON.parse\<close>, a built-in of the language: the decoded value, or the error it throws.\<close>

type_synonym parser = "string \<Rightarrow> js_error + json"

definition initializeOpenAI :: "env \<Rightarrow> app_state \<Rightarrow> app_state" where
  "initializeOpenAI e st =
     (if openaiClient st = None \<and> truthy (AZURE_OPENAI_ENDPOINT e) \<and> truthy (AZURE_OPENAI_KEY e)
      then
        (let cleanEndpoint = strip_trailing_slash (tmpl (AZURE_OPENAI_ENDPOINT e)) in
         st\<lparr>openaiClient := Some
           \<lparr>apiKey = tmpl (AZURE_OPENAI_KEY e),
            baseURL = cleanEndpoint @ ''/openai/deployments/'' @ tmpl (AZURE_OPENAI_DEPLOYMENT e),
            defaultQuery = [(''api-version'', ''2024-08-01-preview'')],
            defaultHeaders = [(''api-key'', tmpl (AZURE_OPENAI_KEY e))]\<rparr>\<rparr>)
      else st)"

definition NotConfigured :: js_error where
  "NotConfigured = JsError ''Error''
     (Some ''Azure OpenAI client not configured. Please set AZURE_OPENAI_ENDPOINT, AZURE_OPENAI_KEY and AZURE_OPENAI_DEPLOYMENT.'')
     (Some ''OPENAI_NOT_CONFIGURED'') None None None"

text \<open>Returns the client the later code reads from the module variable, or throws.\<close>

definition ensureOpenAIClient :: "env \<Rightarrow> app_state \<Rightarrow> (js_error + client) \<times> app_state" where
  "ensureOpenAIClient e st =
     (let st' = initializeOpenAI e st in
      case openaiClient st' of
        None \<Rightarrow> (Inl NotConfigured, st')
      | Some c \<Rightarrow> (Inr c, st'))"

section \<open>The request\<close>

definition prompt :: "string option \<Rightarrow> string" where
  "prompt transcription =
     ''Analyze this customer service call transcript and extract structured information for our CRM system.\<newline>\<newline>TRANSCRIPT:\<newline>''
     @ tmpl transcription
     @ ''\<newline>\<newline>Focus on:\<newline>- Customer sentiment and escalation risk\<newline>- Key information that should be recorded\<newline>- Specific commitments made to the customer\<newline>- Recommended next actions\<newline>\<newline>Be precise and only extract information that's clearly stated in the conversation.''"

definition baseParams :: "env \<Rightarrow> string option \<Rightarrow> params" where
  "baseParams e transcription =
     \<lparr>model = AZURE_OPENAI_DEPLOYMENT e,
      messages =
        [\<lparr>role = ''system'',
          content = ''You are a customer service analysis expert. Extract accurate information from call transcripts to populate CRM systems. Follow the schema exactly.''\<rparr>,
         \<lparr>role = ''user'', content = prompt transcription\<rparr>],
      response_format =
        \<lparr>rtype = ''json_schema'',
         json_schema =
           \<lparr>name = ''customer_service_analysis'', strict = True,
            schema = customerServiceSchema\<rparr>\<rparr>,
      temperature = None, max_tokens = None, max_completion_tokens = None\<rparr>"

text \<open>The two parameter profiles: the first request, and the retry.\<close>

definition legacyParams :: "env \<Rightarrow> string option \<Rightarrow> params" where
  "legacyParams e transcription =
     (baseParams e transcription)\<lparr>temperature := Some (1 / 10), max_tokens := Some 1000\<rparr>"

definition alternateParams :: "env \<Rightarrow> string option \<Rightarrow> params" where
  "alternateParams e transcription =
     (baseParams e transcription)\<lparr>max_completion_tokens := Some 2000\<rparr>"

text \<open>\<^verbatim>\<open>await openaiClient.chat.completions.create(p)\<close>: the request is sent and recorded.\<close>

definition create :: "transport \<Rightarrow> client \<Rightarrow> params \<Rightarrow> app_state
    \<Rightarrow> (js_error + response) \<times> app_state" where
  "create tr c p st = (tr (length (outbound st)) c p, st\<lparr>outbound := outbound st @ [(c, p)]\<rparr>)"

text \<open>The condition of the inner \<^verbatim>\<open>catch (gpt4Error)\<close>.\<close>

definition paramMismatch :: "js_error \<Rightarrow> bool" where
  "paramMismatch gpt4Error =
     (err_status gpt4Error = Some 400 \<and>
      (case err_message gpt4Error of
         None \<Rightarrow> False
       | Some m \<Rightarrow> str_includes m ''max_tokens'' \<or> str_includes m ''temperature''))"

text \<open>The inner \<^verbatim>\<open>try\<close>/\<^verbatim>\<open>catch\<close>: the first request and, on a parameter mismatch, the retry.\<close>

definition requestWithFallback :: "env \<Rightarrow> transport \<Rightarrow> client \<Rightarrow> string option \<Rightarrow> app_state
    \<Rightarrow> (js_error + response) \<times> app_state" where
  "requestWithFallback e tr c transcription st =
     (case create tr c (legacyParams e transcription) st of
        (Inr resp, st1) \<Rightarrow> (Inr resp, st1)
      | (Inl gpt4Error, st1) \<Rightarrow>
          if paramMismatch gpt4Error
          then create tr c (alternateParams e transcription) st1
          else (Inl gpt4Error, st1))"

section \<open>Validating the completion\<close>

definition Truncated :: js_error where
  "Truncated = new_Error ''Response was truncated due to token limit. The analysis may be incomplete.''"

definition MalformedResponse :: js_error where
  "MalformedResponse = new_Error ''Unexpected OpenAI response format: missing content''"

definition InvalidJson :: js_error where
  "InvalidJson = new_Error ''Failed to parse AI response. Response was not valid JSON.''"

text \<open>\<^verbatim>\<open>response?.choices?.[0]?.message?.content\<close>\<close>

definition rawContent :: "response \<Rightarrow> string option" where
  "rawContent r =
     (case choices r of
        None \<Rightarrow> None
      | Some [] \<Rightarrow> None
      | Some (c # _) \<Rightarrow> (case message c of None \<Rightarrow> None | Some m \<Rightarrow> mcontent m))"

text \<open>The content check and the parse, which both files share.\<close>

definition parseContent :: "parser \<Rightarrow> response \<Rightarrow> js_error + json" where
  "parseContent parse r =
     (if \<not> truthy (rawContent r) then Inl MalformedResponse
      else case parse (tmpl (rawContent r)) of
             Inl parseErr \<Rightarrow> Inl InvalidJson
           | Inr analysis \<Rightarrow> Inr analysis)"

text \<open>
  The file with the retry reads \<^verbatim>\<open>response.choices[0].finish_reason\<close> first, with no
  optional chaining: on a missing or empty \<^verbatim>\<open>choices\<close> the read throws a \<^verbatim>\<open>TypeError\<close>
  (the messages are those of Node).
\<close>

definition validateResponse :: "parser \<Rightarrow> response \<Rightarrow> js_error + json" where
  "validateResponse parse r =
     (case choices r of
        None \<Rightarrow> Inl (new_TypeError ''Cannot read properties of undefined (reading '0')'')
      | Some [] \<Rightarrow>
          Inl (new_TypeError ''Cannot read properties of undefined (reading 'finish_reason')'')
      | Some (c # _) \<Rightarrow>
          if finish_reason c = Some ''length'' then Inl Truncated
          else parseContent parse r)"

section \<open>Classifying a failure\<close>

definition DeploymentNotFound :: "env \<Rightarrow> js_error" where
  "DeploymentNotFound e =
     new_Error (''Deployment '' @ [CHR 0x27] @ tmpl (AZURE_OPENAI_DEPLOYMENT e) @ [CHR 0x27]
       @ '' not found. Check your deployment name.'')"

definition AuthenticationFailed :: js_error where
  "AuthenticationFailed = new_Error ''Authentication failed. Check your API key.''"

text \<open>The outer \<^verbatim>\<open>catch (error)\<close>: the value it throws.\<close>

definition classifyError :: "env \<Rightarrow> js_error \<Rightarrow> js_error" where
  "classifyError e error =
     (if err_code error = Some ''OPENAI_NOT_CONFIGURED'' then error
      else
        (let status = js_or (err_response_status error) (err_status error) in
         if status = Some 404 then DeploymentNotFound e
         else if status = Some 401 then AuthenticationFailed
         else error))"

section \<open>The analysis function\<close>

text \<open>
  The rest of the outer \<^verbatim>\<open>try\<close> once the request has an outcome, and its \<^verbatim>\<open>catch\<close>:
  a completion is validated, and every error thrown on the way is classified.
\<close>

definition outerTry :: "env \<Rightarrow> parser \<Rightarrow> js_error + response \<Rightarrow> js_error + json" where
  "outerTry e parse r =
     (case r of
        Inl error \<Rightarrow> Inl (classifyError e error)
      | Inr resp \<Rightarrow>
          (case validateResponse parse resp of
             Inl error \<Rightarrow> Inl (classifyError e error)
           | Inr analysis \<Rightarrow> Inr analysis))"

text \<open>
  \<^verbatim>\<open>getAIAnalysis\<close> of the file with the retry. The configuration check is outside the
  \<^verbatim>\<open>try\<close>, so its error leaves the function as it is.
\<close>

definition getAIAnalysis :: "env \<Rightarrow> transport \<Rightarrow> parser \<Rightarrow> string option \<Rightarrow> app_state
    \<Rightarrow> (js_error + json) \<times> app_state" where
  "getAIAnalysis e tr parse transcription st =
     (case ensureOpenAIClient e st of
        (Inl err, st0) \<Rightarrow> (Inl err, st0)
      | (Inr c, st0) \<Rightarrow>
          (case requestWithFallback e tr c transcription st0 of
             (r, st1) \<Rightarrow> (outerTry e parse r, st1)))"

text \<open>
  \<^verbatim>\<open>getAIAnalysis\<close> of \<^verbatim>\<open>routes/analysis.js\<close>: one request with the first profile, no
  look at \<^verbatim>\<open>finish_reason\<close>, then the same content check, parse and classification.
\<close>

definition outerTry_routes :: "env \<Rightarrow> parser \<Rightarrow> js_error + response \<Rightarrow> js_error + json" where
  "outerTry_routes e parse r =
     (case r of
        Inl error \<Rightarrow> Inl (classifyError e error)
      | Inr resp \<Rightarrow>
          (case parseContent parse resp of
             Inl error \<Rightarrow> Inl (classifyError e error)
           | Inr analysis \<Rightarrow> Inr analysis))"

definition getAIAnalysis_routes :: "env \<Rightarrow> transport \<Rightarrow> parser \<Rightarrow> string option \<Rightarrow> app_state
    \<Rightarrow> (js_error + json) \<times> app_state" where
  "getAIAnalysis_routes e tr parse transcription st =
     (case ensureOpenAIClient e st of
        (Inl err, st0) \<Rightarrow> (Inl err, st0)
      | (Inr c, st0) \<Rightarrow>
          (case create tr c (legacyParams e transcription) st0 of
             (r, st1) \<Rightarrow> (outerTry_routes e parse r, st1)))"

section \<open>The route\<close>

text \<open>
  The body of a request to \<^verbatim>\<open>POST /analyze\<close>, as the JSON middleware leaves it; \<open>None\<close>
  is a property that is not there. The reply is the status and the JSON object sent (the
  timestamp of a success is left out).
\<close>

record analyze_request =
  transcription :: "string option"
  scenarioId :: "string option"

record analyze_reply =
  http_status :: nat
  success :: bool
  analysis :: "json option"
  reply_schema :: "schema option"
  error :: "string option"



section \<open>The client library under a call\<close>







section \<open>The JSON middleware before the route\<close>






section \<open>What the schema asks of a value\<close>

text \<open>
  JSON Schema validation for the keywords of \<^typ>\<open>schema\<close>: \<^verbatim>\<open>type\<close>, \<^verbatim>\<open>enum\<close>,
  \<^verbatim>\<open>minimum\<close>, \<^verbatim>\<open>maximum\<close>, \<^verbatim>\<open>items\<close>, \<^verbatim>\<open>properties\<close>, \<^verbatim>\<open>required\<close> and
  \<^verbatim>\<open>additionalProperties\<close>. The program never runs it: enforcing the schema is left to
  the provider. The members of an object have distinct names.
\<close>

fun validates :: "schema \<Rightarrow> json \<Rightarrow> bool" where
  "validates (StringT enum d) (JStr s) = (case enum of None \<Rightarrow> True | Some vs \<Rightarrow> s \<in> set vs)"
| "validates (NumberT lo hi d) (JNum x) =
     ((case lo of None \<Rightarrow> True | Some l \<Rightarrow> l \<le> x) \<and> (case hi of None \<Rightarrow> True | Some h \<Rightarrow> x \<le> h))"
| "validates (ArrayT items d) (JArr xs) = list_all (validates items) xs"
| "validates (ObjectT props req addl) (JObj kvs) =
     (list_all (\<lambda>k. k \<in> fst ` set kvs) req \<and>
      (addl \<noteq> Some False \<or> list_all (\<lambda>k. k \<in> fst ` set props) (map fst kvs)) \<and>
      list_all (\<lambda>(k, s). case map_of kvs k of None \<Rightarrow> True | Some x \<Rightarrow> validates s x) props)"
| "validates _ _ = False"

section \<open>Example inputs\<close>

text \<open>An environment with the three variables set, and one where the deployment is not.\<close>

definition env_full :: env where
  "env_full =
     \<lparr>AZURE_OPENAI_ENDPOINT = Some ''https://contoso.openai.azure.com/'',
      AZURE_OPENAI_KEY = Some ''secret'',
      AZURE_OPENAI_DEPLOYMENT = Some ''gpt-4o''\<rparr>"

definition env_no_deployment :: env where
  "env_no_deployment =
     \<lparr>AZURE_OPENAI_ENDPOINT = Some ''https://contoso.openai.azure.com/'',
      AZURE_OPENAI_KEY = Some ''secret'',
      AZURE_OPENAI_DEPLOYMENT = None\<rparr>"


definition env_other :: env where
  "env_other =
     \<lparr>AZURE_OPENAI_ENDPOINT = Some ''https://fabrikam.openai.azure.com'',
      AZURE_OPENAI_KEY = Some ''other'',
      AZURE_OPENAI_DEPLOYMENT = Some ''gpt-5''\<rparr>"

text \<open>The module as loaded: no client yet, nothing sent.\<close>

definition st_fresh :: app_state where
  "st_fresh = \<lparr>openaiClient = None, outbound = []\<rparr>"

definition client_full :: client where
  "client_full =
     \<lparr>apiKey = ''secret'',
      baseURL = ''https://contoso.openai.azure.com/openai/deployments/gpt-4o'',
      defaultQuery = [(''api-version'', ''2024-08-01-preview'')],
      defaultHeaders = [(''api-key'', ''secret'')]\<rparr>"

definition client_no_deployment :: client where
  "client_no_deployment =
     \<lparr>apiKey = ''secret'',
      baseURL = ''https://contoso.openai.azure.com/openai/deployments/undefined'',
      defaultQuery = [(''api-version'', ''2024-08-01-preview'')],
      defaultHeaders = [(''api-key'', ''secret'')]\<rparr>"

text \<open>Completions: a finished one, one cut off for length, and two without a first choice.\<close>

definition completion :: "string \<Rightarrow> string \<Rightarrow> response" where
  "completion reason text =
     \<lparr>choices = Some [\<lparr>finish_reason = Some reason, message = Some \<lparr>mcontent = Some text\<rparr>\<rparr>]\<rparr>"

definition resp_no_choices :: response where
  "resp_no_choices = \<lparr>choices = None\<rparr>"

definition resp_empty_choices :: response where
  "resp_empty_choices = \<lparr>choices = Some []\<rparr>"

text \<open>Errors of the provider, as the client library throws them.\<close>

definition err_unsupported :: js_error where
  "err_unsupported = JsError ''BadRequestError''
     (Some ''400 Unsupported parameter: 'max_tokens' is not supported with this model. Use 'max_completion_tokens' instead.'')
     (Some ''unsupported_parameter'') (Some 400) None None"

definition err_401 :: js_error where
  "err_401 = JsError ''AuthenticationError''
     (Some ''401 Access denied due to invalid subscription key.'') (Some ''401'') (Some 401)
     None None"

definition err_404 :: js_error where
  "err_404 = JsError ''NotFoundError'' (Some ''404 Resource not found'')
     (Some ''DeploymentNotFound'') (Some 404) None None"

definition err_429 :: js_error where
  "err_429 = JsError ''RateLimitError'' (Some ''429 Too many requests'') (Some ''429'')
     (Some 429) None None"

text \<open>Providers: one that answers every request alike, one that fails every request alike,
  and one that refuses the first profile and answers the other.\<close>

definition tr_const :: "response \<Rightarrow> transport" where
  "tr_const resp = (\<lambda>n c p. Inr resp)"

definition tr_fail :: "js_error \<Rightarrow> transport" where
  "tr_fail err = (\<lambda>n c p. Inl err)"

definition tr_new_model :: "response \<Rightarrow> transport" where
  "tr_new_model resp =
     (\<lambda>n c p. if max_tokens p \<noteq> None \<or> temperature p \<noteq> None then Inl err_unsupported
              else Inr resp)"





text \<open>A complete analysis, as the text the provider sends and as the value it decodes to.\<close>

definition analysis_text :: string where
  "analysis_text = ''{\"sentiment\":\"negative\",\"escalationRisk\":\"medium\",\"primaryIntent\":\"missing delivery\",\"keyInformation\":{\"orderNumber\":\"12345\",\"customerEmail\":\"\",\"productSKU\":\"\",\"issueDate\":\"\",\"customerPhone\":\"\"},\"suggestedActions\":[\"Trace the shipment\"],\"commitments\":[],\"confidenceScore\":0.9,\"summary\":\"Order 12345 never arrived.\"}''"

definition analysis_value :: json where
  "analysis_value = JObj
     [(''sentiment'', JStr ''negative''),
      (''escalationRisk'', JStr ''medium''),
      (''primaryIntent'', JStr ''missing delivery''),
      (''keyInformation'', JObj
         [(''orderNumber'', JStr ''12345''),
          (''customerEmail'', JStr []),
          (''productSKU'', JStr []),
          (''issueDate'', JStr []),
          (''customerPhone'', JStr [])]),
      (''suggestedActions'', JArr [JStr ''Trace the shipment'']),
      (''commitments'', JArr []),
      (''confidenceScore'', JNum (9 / 10)),
      (''summary'', JStr ''Order 12345 never arrived.'')]"

text \<open>
  The decoder at the texts of the examples: \<^verbatim>\<open>JSON.parse("{}")\<close> is the empty object,
  the text above decodes to the value above, and \<^verbatim>\<open>JSON.parse("hello")\<close> throws.
\<close>

definition err_syntax :: js_error where
  "err_syntax = JsError ''SyntaxError''
     (Some ''Unexpected token 'h', \"hello\" is not valid JSON'') None None None None"

definition parse_example :: parser where
  "parse_example text =
     (if text = ''{}'' then Inr (JObj [])
      else if text = analysis_text then Inr analysis_value
      else Inl err_syntax)"

text \<open>Whether a thrown error carries another: as its cause, or with the other's message in its own.\<close>

definition carries :: "js_error \<Rightarrow> js_error \<Rightarrow> bool" where
  "carries err original =
     (err_cause err = Some original \<or>
      (case (err_message err, err_message original) of
         (Some m, Some m0) \<Rightarrow> str_includes m m0
       | _ \<Rightarrow> False))"

text \<open>The requests a call has added to those sent before it.\<close>

definition sent :: "app_state \<Rightarrow> app_state \<Rightarrow> (client \<times> params) list" where
  "sent st st' = drop (length (outbound st)) (outbound st')"

section \<open>Basic facts\<close>

lemma initializeOpenAI_outbound: "outbound (initializeOpenAI e st) = outbound st"
  by (simp add: initializeOpenAI_def Let_def)

lemma initializeOpenAI_kept: "openaiClient st = Some c \<Longrightarrow> initializeOpenAI e st = st"
  by (simp add: initializeOpenAI_def)

lemma initializeOpenAI_idem: "initializeOpenAI e (initializeOpenAI e st) = initializeOpenAI e st"
  by (simp add: initializeOpenAI_def Let_def)

lemma ensure_Inr:
  "ensureOpenAIClient e st = (Inr c, st0) \<longleftrightarrow>
     st0 = initializeOpenAI e st \<and> openaiClient (initializeOpenAI e st) = Some c"
  by (auto simp: ensureOpenAIClient_def Let_def split: option.splits)

lemma ensure_Inl:
  "ensureOpenAIClient e st = (Inl err, st0) \<longleftrightarrow>
     st0 = initializeOpenAI e st \<and> openaiClient (initializeOpenAI e st) = None \<and> err = NotConfigured"
  by (auto simp: ensureOpenAIClient_def Let_def split: option.splits)

lemma ensure_outbound: "ensureOpenAIClient e st = (r, st0) \<Longrightarrow> outbound st0 = outbound st"
  by (cases r) (simp_all add: ensure_Inr ensure_Inl initializeOpenAI_outbound)

lemma requestWithFallback_eq:
  "requestWithFallback e tr c t st =
     (case tr (length (outbound st)) c (legacyParams e t) of
        Inr resp \<Rightarrow> (Inr resp, st\<lparr>outbound := outbound st @ [(c, legacyParams e t)]\<rparr>)
      | Inl g \<Rightarrow>
         if paramMismatch g
         then (tr (Suc (length (outbound st))) c (alternateParams e t),
               st\<lparr>outbound := outbound st @ [(c, legacyParams e t), (c, alternateParams e t)]\<rparr>)
         else (Inl g, st\<lparr>outbound := outbound st @ [(c, legacyParams e t)]\<rparr>))"
  by (simp add: requestWithFallback_def create_def split: sum.splits)

lemma getAIAnalysis_configured:
  assumes "ensureOpenAIClient e st = (Inr c, st0)"
  shows "getAIAnalysis e tr parse t st =
           (outerTry e parse (fst (requestWithFallback e tr c t st0)),
            snd (requestWithFallback e tr c t st0))"
  using assms by (simp add: getAIAnalysis_def split: prod.splits)

lemma getAIAnalysis_routes_configured:
  assumes "ensureOpenAIClient e st = (Inr c, st0)"
  shows "getAIAnalysis_routes e tr parse t st =
           (outerTry_routes e parse (tr (length (outbound st)) c (legacyParams e t)),
            st0\<lparr>outbound := outbound st @ [(c, legacyParams e t)]\<rparr>)"
  using assms ensure_outbound [OF assms]
  by (simp add: getAIAnalysis_routes_def create_def)

lemma classifyError_new_Error: "classifyError e (new_Error m) = new_Error m"
  by (simp add: classifyError_def new_Error_def js_or_def)

lemma classifyError_new_TypeError: "classifyError e (new_TypeError m) = new_TypeError m"
  by (simp add: classifyError_def new_TypeError_def js_or_def)

lemma sent_append: "sent st (st0\<lparr>outbound := outbound st @ xs\<rparr>) = xs"
  by (simp add: sent_def)

text \<open>The examples, evaluated.\<close>

lemma paramMismatch_unsupported: "paramMismatch err_unsupported"
  unfolding paramMismatch_def err_unsupported_def str_includes_def by code_simp

lemma ensure_env_full:
  "ensureOpenAIClient env_full st_fresh = (Inr client_full, st_fresh\<lparr>openaiClient := Some client_full\<rparr>)"
  by (simp add: ensureOpenAIClient_def initializeOpenAI_def env_full_def st_fresh_def
      client_full_def truthy_def tmpl_def strip_trailing_slash_def)

lemma ensure_env_no_deployment:
  "ensureOpenAIClient env_no_deployment st_fresh =
     (Inr client_no_deployment, st_fresh\<lparr>openaiClient := Some client_no_deployment\<rparr>)"
  by (simp add: ensureOpenAIClient_def initializeOpenAI_def env_no_deployment_def st_fresh_def
      client_no_deployment_def truthy_def tmpl_def strip_trailing_slash_def)

lemma parse_example_hello: "parse_example ''hello'' = Inl err_syntax"
  by (simp add: parse_example_def analysis_text_def)

lemma parse_example_analysis: "parse_example analysis_text = Inr analysis_value"
  by (simp add: parse_example_def analysis_text_def)

lemma unsupported_cond:
  "err_status err_unsupported = Some 400 \<and>
   (\<exists>m. err_message err_unsupported = Some m \<and>
      (str_includes m ''max_tokens'' \<or> str_includes m ''temperature''))"
  using paramMismatch_unsupported
  by (auto simp: paramMismatch_def split: option.splits)

lemma outbound_st_fresh: "outbound st_fresh = []"
  by (simp add: st_fresh_def)

lemma tr_new_model_legacy:
  "tr_new_model resp n c (legacyParams e t) = Inl err_unsupported"
  by (simp add: tr_new_model_def legacyParams_def)

lemma tr_new_model_alternate:
  "tr_new_model resp n c (alternateParams e t) = Inr resp"
  by (simp add: tr_new_model_def alternateParams_def baseParams_def)

lemma rawContent_completion: "rawContent (completion reason text) = Some text"
  by (simp add: rawContent_def completion_def)

lemma validate_completion_stop:
  "validateResponse parse (completion ''stop'' text) = parseContent parse (completion ''stop'' text)"
  by (simp add: validateResponse_def completion_def)

lemma parseContent_completion:
  "text \<noteq> [] \<Longrightarrow> parseContent parse (completion reason text) =
     (case parse text of Inl parseErr \<Rightarrow> Inl InvalidJson | Inr a \<Rightarrow> Inr a)"
  by (simp add: parseContent_def rawContent_completion truthy_def tmpl_def)

lemma outerTry_stop_empty_object:
  "outerTry e parse_example (Inr (completion ''stop'' ''{}'')) = Inr (JObj [])"
  by (simp add: outerTry_def validate_completion_stop parseContent_completion parse_example_def)

section \<open>The two parameter profiles and the retry\<close>

text \<open>
  Claim C1. In the file with the retry, a call that passes the configuration check sends
  the first request with temperature 0.1 and \<^verbatim>\<open>max_tokens\<close> 1000. If that request fails
  with status 400 and a message that contains \<^verbatim>\<open>max_tokens\<close> or \<^verbatim>\<open>temperature\<close>, one more
  request is sent, with no temperature and \<^verbatim>\<open>max_completion_tokens\<close> 2000, after the first,
  and the call ends as the outcome of that second request makes it end; in every other
  case the first request is the only one. In \<^verbatim>\<open>routes/analysis.js\<close> the first request is the
  same and is always the only one.
\<close>

theorem fallback_profiles_and_order:
  assumes "ensureOpenAIClient e st = (Inr c, st0)"
  shows "temperature (legacyParams e t) = Some (1 / 10) \<and>
         max_tokens (legacyParams e t) = Some 1000 \<and>
         max_completion_tokens (legacyParams e t) = None \<and>
         temperature (alternateParams e t) = None \<and>
         max_tokens (alternateParams e t) = None \<and>
         max_completion_tokens (alternateParams e t) = Some 2000 \<and>
         (case tr (length (outbound st)) c (legacyParams e t) of
            Inr resp \<Rightarrow>
              sent st (snd (getAIAnalysis e tr parse t st)) = [(c, legacyParams e t)] \<and>
              fst (getAIAnalysis e tr parse t st) = outerTry e parse (Inr resp)
          | Inl g \<Rightarrow>
              if err_status g = Some 400 \<and>
                 (\<exists>m. err_message g = Some m \<and>
                   (str_includes m ''max_tokens'' \<or> str_includes m ''temperature''))
              then sent st (snd (getAIAnalysis e tr parse t st)) =
                     [(c, legacyParams e t), (c, alternateParams e t)] \<and>
                   fst (getAIAnalysis e tr parse t st) =
                     outerTry e parse (tr (Suc (length (outbound st))) c (alternateParams e t))
              else sent st (snd (getAIAnalysis e tr parse t st)) = [(c, legacyParams e t)] \<and>
                   fst (getAIAnalysis e tr parse t st) = outerTry e parse (Inl g)) \<and>
         sent st (snd (getAIAnalysis_routes e tr parse t st)) = [(c, legacyParams e t)]"
proof -
  have ob: "outbound st0 = outbound st"
    using assms by (rule ensure_outbound)
  have pm: "paramMismatch g \<longleftrightarrow>
      (err_status g = Some 400 \<and>
        (\<exists>m. err_message g = Some m \<and>
           (str_includes m ''max_tokens'' \<or> str_includes m ''temperature'')))" for g
    by (auto simp: paramMismatch_def split: option.splits)
  have profiles: "temperature (legacyParams e t) = Some (1 / 10) \<and>
         max_tokens (legacyParams e t) = Some 1000 \<and>
         max_completion_tokens (legacyParams e t) = None \<and>
         temperature (alternateParams e t) = None \<and>
         max_tokens (alternateParams e t) = None \<and>
         max_completion_tokens (alternateParams e t) = Some 2000"
    by (simp add: legacyParams_def alternateParams_def baseParams_def)
  have routes: "sent st (snd (getAIAnalysis_routes e tr parse t st)) = [(c, legacyParams e t)]"
    by (simp add: getAIAnalysis_routes_configured [OF assms] sent_append)
  have main: "(case tr (length (outbound st)) c (legacyParams e t) of
            Inr resp \<Rightarrow>
              sent st (snd (getAIAnalysis e tr parse t st)) = [(c, legacyParams e t)] \<and>
              fst (getAIAnalysis e tr parse t st) = outerTry e parse (Inr resp)
          | Inl g \<Rightarrow>
              if err_status g = Some 400 \<and>
                 (\<exists>m. err_message g = Some m \<and>
                   (str_includes m ''max_tokens'' \<or> str_includes m ''temperature''))
              then sent st (snd (getAIAnalysis e tr parse t st)) =
                     [(c, legacyParams e t), (c, alternateParams e t)] \<and>
                   fst (getAIAnalysis e tr parse t st) =
                     outerTry e parse (tr (Suc (length (outbound st))) c (alternateParams e t))
              else sent st (snd (getAIAnalysis e tr parse t st)) = [(c, legacyParams e t)] \<and>
                   fst (getAIAnalysis e tr parse t st) = outerTry e parse (Inl g))"
    unfolding pm [symmetric]
    by (simp add: getAIAnalysis_configured [OF assms] requestWithFallback_eq ob sent_append
        split: sum.splits)
  from profiles main routes show ?thesis by blast
qed

theorem fallback_profiles_and_order_witness:
  "ensureOpenAIClient env_full st_fresh =
     (Inr client_full, st_fresh\<lparr>openaiClient := Some client_full\<rparr>) \<and>
   sent st_fresh (snd (getAIAnalysis env_full (tr_new_model (completion ''stop'' ''{}''))
       parse_example (Some ''hi'') st_fresh)) =
     [(client_full, legacyParams env_full (Some ''hi'')),
      (client_full, alternateParams env_full (Some ''hi''))] \<and>
   fst (getAIAnalysis env_full (tr_new_model (completion ''stop'' ''{}''))
       parse_example (Some ''hi'') st_fresh) = Inr (JObj [])"
  using fallback_profiles_and_order [OF ensure_env_full, of "Some ''hi''"
      "tr_new_model (completion ''stop'' ''{}'')" parse_example]
    unsupported_cond
  by (simp add: ensure_env_full tr_new_model_legacy tr_new_model_alternate
      outerTry_stop_empty_object)

text \<open>
  In \<^verbatim>\<open>routes/analysis.js\<close> a first request refused with status 400 for \<^verbatim>\<open>max_tokens\<close> is
  not followed by a second: the error is the result.
\<close>

theorem routes_never_retries:
  "tr_new_model (completion ''stop'' ''{}'') 0 client_full (legacyParams env_full (Some ''hi''))
     = Inl err_unsupported \<and>
   err_status err_unsupported = Some 400 \<and>
   paramMismatch err_unsupported \<and>
   sent st_fresh (snd (getAIAnalysis_routes env_full (tr_new_model (completion ''stop'' ''{}''))
       parse_example (Some ''hi'') st_fresh)) = [(client_full, legacyParams env_full (Some ''hi''))] \<and>
   fst (getAIAnalysis_routes env_full (tr_new_model (completion ''stop'' ''{}''))
       parse_example (Some ''hi'') st_fresh) = Inl err_unsupported"
proof -
  have "classifyError env_full err_unsupported = err_unsupported"
    by (simp add: classifyError_def err_unsupported_def js_or_def)
  then show ?thesis
    using unsupported_cond paramMismatch_unsupported
    by (simp add: getAIAnalysis_routes_configured [OF ensure_env_full] sent_append
        tr_new_model_legacy outerTry_routes_def outbound_st_fresh sent_def)
qed

lemma validateResponse_length:
  assumes "choices resp = Some (ch # rest)" and "finish_reason ch = Some ''length''"
  shows "validateResponse parse resp = Inl Truncated"
  using assms by (simp add: validateResponse_def)

lemma classifyError_Truncated: "classifyError e Truncated = Truncated"
  by (simp add: Truncated_def classifyError_new_Error)

section \<open>Truncated completions\<close>

text \<open>
  Claim C2. In the file with the retry, a completion whose first choice has
  \<^verbatim>\<open>finish_reason\<close> equal to \<^verbatim>\<open>length\<close> makes the call fail with the truncation error,
  whether it answered the first request or the retry, and whatever the decoder would make
  of its content: the content is not decoded.
\<close>

theorem truncation_precedes_parse:
  assumes "ensureOpenAIClient e st = (Inr c, st0)"
    and "tr (length (outbound st)) c (legacyParams e t) = Inr resp \<or>
         (\<exists>g. tr (length (outbound st)) c (legacyParams e t) = Inl g \<and> paramMismatch g \<and>
              tr (Suc (length (outbound st))) c (alternateParams e t) = Inr resp)"
    and "choices resp = Some (ch # rest)"
    and "finish_reason ch = Some ''length''"
  shows "fst (getAIAnalysis e tr parse t st) = Inl Truncated"
proof -
  have ob: "outbound st0 = outbound st"
    using assms(1) by (rule ensure_outbound)
  have "fst (requestWithFallback e tr c t st0) = Inr resp"
    using assms(2) by (auto simp: requestWithFallback_eq ob)
  moreover have "outerTry e parse (Inr resp) = Inl Truncated"
    by (simp add: outerTry_def validateResponse_length [OF assms(3,4)] classifyError_Truncated)
  ultimately show ?thesis
    by (simp add: getAIAnalysis_configured [OF assms(1)])
qed

theorem truncation_precedes_parse_witness:
  "parse_example ''{}'' = Inr (JObj []) \<and>
   fst (getAIAnalysis env_full (tr_new_model (completion ''length'' ''{}'')) parse_example
     (Some ''hi'') st_fresh) = Inl Truncated \<and>
   fst (getAIAnalysis env_full (tr_const (completion ''length'' ''{}'')) parse_example
     (Some ''hi'') st_fresh) = Inl Truncated"
proof -
  have ch: "choices (completion ''length'' ''{}'') =
      Some (\<lparr>finish_reason = Some ''length'', message = Some \<lparr>mcontent = Some ''{}''\<rparr>\<rparr> # [])"
    by (simp add: completion_def)
  have a: "fst (getAIAnalysis env_full (tr_new_model (completion ''length'' ''{}''))
      parse_example (Some ''hi'') st_fresh) = Inl Truncated"
    by (rule truncation_precedes_parse [OF ensure_env_full _ ch])
      (simp_all add: tr_new_model_legacy tr_new_model_alternate paramMismatch_unsupported)
  have b: "fst (getAIAnalysis env_full (tr_const (completion ''length'' ''{}''))
      parse_example (Some ''hi'') st_fresh) = Inl Truncated"
    by (rule truncation_precedes_parse [OF ensure_env_full _ ch])
      (simp_all add: tr_const_def)
  show ?thesis using a b by (simp add: parse_example_def)
qed

text \<open>
  \<^verbatim>\<open>routes/analysis.js\<close> does not read \<^verbatim>\<open>finish_reason\<close>: there the content of such a
  completion is decoded and returned.
\<close>

theorem routes_parses_truncated:
  "choices (completion ''length'' ''{}'') =
     Some [\<lparr>finish_reason = Some ''length'', message = Some \<lparr>mcontent = Some ''{}''\<rparr>\<rparr>] \<and>
   parse_example ''{}'' = Inr (JObj []) \<and>
   fst (getAIAnalysis_routes env_full (tr_const (completion ''length'' ''{}'')) parse_example
     (Some ''hi'') st_fresh) = Inr (JObj [])"
proof -
  have "fst (getAIAnalysis_routes env_full (tr_const (completion ''length'' ''{}''))
      parse_example (Some ''hi'') st_fresh) = Inr (JObj [])"
    by (simp add: getAIAnalysis_routes_configured [OF ensure_env_full] outerTry_routes_def
        tr_const_def parseContent_completion parse_example_def)
  then show ?thesis
    by (simp add: completion_def parse_example_def)
qed

section \<open>The configuration check\<close>

text \<open>
  With no client yet and the endpoint or the key unset or empty, the call fails with the
  configuration error and nothing is sent.
\<close>

lemma not_configured_without_endpoint_or_key:
  assumes "openaiClient st = None"
    and "\<not> truthy (AZURE_OPENAI_ENDPOINT e) \<or> \<not> truthy (AZURE_OPENAI_KEY e)"
  shows "getAIAnalysis e tr parse t st = (Inl NotConfigured, st) \<and>
         getAIAnalysis_routes e tr parse t st = (Inl NotConfigured, st)"
proof -
  have "initializeOpenAI e st = st"
    using assms(2) by (auto simp: initializeOpenAI_def)
  then have "ensureOpenAIClient e st = (Inl NotConfigured, st)"
    using assms(1) by (simp add: ensure_Inl)
  then show ?thesis
    by (simp add: getAIAnalysis_def getAIAnalysis_routes_def)
qed

text \<open>
  Claim C3. The check looks at the endpoint and the key only. With the deployment unset
  the client is built, with \<^verbatim>\<open>undefined\<close> as the last segment of its base address, and
  the request is sent, with no \<^verbatim>\<open>model\<close>; here the provider answers and the call succeeds.
\<close>

theorem unset_deployment_is_not_gated:
  "AZURE_OPENAI_DEPLOYMENT env_no_deployment = None \<and>
   getAIAnalysis env_no_deployment (tr_const (completion ''stop'' ''{}'')) parse_example
       (Some ''hi'') st_fresh =
     (Inr (JObj []),
      \<lparr>openaiClient = Some client_no_deployment,
       outbound = [(client_no_deployment, legacyParams env_no_deployment (Some ''hi''))]\<rparr>) \<and>
   getAIAnalysis_routes env_no_deployment (tr_const (completion ''stop'' ''{}'')) parse_example
       (Some ''hi'') st_fresh =
     (Inr (JObj []),
      \<lparr>openaiClient = Some client_no_deployment,
       outbound = [(client_no_deployment, legacyParams env_no_deployment (Some ''hi''))]\<rparr>) \<and>
   baseURL client_no_deployment = ''https://contoso.openai.azure.com/openai/deployments/undefined'' \<and>
   model (legacyParams env_no_deployment (Some ''hi'')) = None"
proof -
  have a: "getAIAnalysis env_no_deployment (tr_const (completion ''stop'' ''{}''))
      parse_example (Some ''hi'') st_fresh =
     (Inr (JObj []),
      \<lparr>openaiClient = Some client_no_deployment,
       outbound = [(client_no_deployment, legacyParams env_no_deployment (Some ''hi''))]\<rparr>)"
    unfolding getAIAnalysis_configured [OF ensure_env_no_deployment]
    by (simp add: requestWithFallback_eq tr_const_def outerTry_stop_empty_object st_fresh_def)
  have b: "getAIAnalysis_routes env_no_deployment (tr_const (completion ''stop'' ''{}''))
      parse_example (Some ''hi'') st_fresh =
     (Inr (JObj []),
      \<lparr>openaiClient = Some client_no_deployment,
       outbound = [(client_no_deployment, legacyParams env_no_deployment (Some ''hi''))]\<rparr>)"
    unfolding getAIAnalysis_routes_configured [OF ensure_env_no_deployment]
    by (simp add: tr_const_def outerTry_routes_def parseContent_completion parse_example_def
        st_fresh_def)
  show ?thesis
    using a b
    by (simp add: env_no_deployment_def client_no_deployment_def legacyParams_def baseParams_def)
qed

section \<open>Failures of the request\<close>

lemma classifyError_401:
  assumes "js_or (err_response_status g) (err_status g) = Some 401"
    and "err_code g \<noteq> Some ''OPENAI_NOT_CONFIGURED''"
  shows "classifyError e g = AuthenticationFailed"
  using assms by (simp add: classifyError_def)

lemma classifyError_404:
  assumes "js_or (err_response_status g) (err_status g) = Some 404"
    and "err_code g \<noteq> Some ''OPENAI_NOT_CONFIGURED''"
  shows "classifyError e g = DeploymentNotFound e"
  using assms by (simp add: classifyError_def)

lemma classifyError_other:
  assumes "js_or (err_response_status g) (err_status g) \<noteq> Some 404"
    and "js_or (err_response_status g) (err_status g) \<noteq> Some 401"
  shows "classifyError e g = g"
  using assms by (simp add: classifyError_def)

lemma DeploymentNotFound_names_deployment:
  "\<exists>m. err_message (DeploymentNotFound e) = Some m \<and>
       str_includes m (tmpl (AZURE_OPENAI_DEPLOYMENT e))"
proof -
  have sub: "sublist d (p @ d @ q)" for d p q :: string
    unfolding sublist_def by blast
  have "err_message (DeploymentNotFound e) =
      Some ((''Deployment '' @ [CHR 0x27]) @ tmpl (AZURE_OPENAI_DEPLOYMENT e) @
        ([CHR 0x27] @ '' not found. Check your deployment name.''))"
    by (simp add: DeploymentNotFound_def new_Error_def)
  then show ?thesis
    unfolding str_includes_def using sub by blast
qed






text \<open>
  Claim C6. A failure of a request is classified when it decides the call: with status 404
  the call throws the deployment error, whose message quotes \<^verbatim>\<open>AZURE_OPENAI_DEPLOYMENT\<close>;
  with status 401 the authentication error; any other failure is thrown again as it is. In
  \<^verbatim>\<open>routes/analysis.js\<close> every failure of the request decides the call. In the file with the
  retry a failure of the first request that is the parameter mismatch does not: it is
  dropped, and the outcome of the retry takes its place; every other failure of the first
  request, and every failure of the retry, decides the call. The status is
  \<^verbatim>\<open>error.response.status || error.status\<close>, and the two mapped cases are for errors that
  do not have the program's own code \<^verbatim>\<open>OPENAI_NOT_CONFIGURED\<close>.
\<close>

theorem transport_failure_classification:
  assumes "ensureOpenAIClient e st = (Inr c, st0)"
  shows "(tr (length (outbound st)) c (legacyParams e t) = Inl g \<longrightarrow>
            fst (getAIAnalysis_routes e tr parse t st) = Inl (classifyError e g)) \<and>
         (tr (length (outbound st)) c (legacyParams e t) = Inl g \<and> \<not> paramMismatch g \<longrightarrow>
            fst (getAIAnalysis e tr parse t st) = Inl (classifyError e g)) \<and>
         (tr (length (outbound st)) c (legacyParams e t) = Inl g0 \<and> paramMismatch g0 \<longrightarrow>
            fst (getAIAnalysis e tr parse t st) =
              outerTry e parse (tr (Suc (length (outbound st))) c (alternateParams e t)) \<and>
            (tr (Suc (length (outbound st))) c (alternateParams e t) = Inl g \<longrightarrow>
               fst (getAIAnalysis e tr parse t st) = Inl (classifyError e g))) \<and>
         (js_or (err_response_status g) (err_status g) = Some 404 \<and>
          err_code g \<noteq> Some ''OPENAI_NOT_CONFIGURED'' \<longrightarrow>
            classifyError e g = DeploymentNotFound e \<and>
            (\<exists>m. err_message (DeploymentNotFound e) = Some m \<and>
                 str_includes m (tmpl (AZURE_OPENAI_DEPLOYMENT e)))) \<and>
         (js_or (err_response_status g) (err_status g) = Some 401 \<and>
          err_code g \<noteq> Some ''OPENAI_NOT_CONFIGURED'' \<longrightarrow>
            classifyError e g = AuthenticationFailed) \<and>
         (js_or (err_response_status g) (err_status g) \<noteq> Some 404 \<and>
          js_or (err_response_status g) (err_status g) \<noteq> Some 401 \<longrightarrow>
            classifyError e g = g)"
proof -
  have ob: "outbound st0 = outbound st"
    using assms(1) by (rule ensure_outbound)
  have a: "fst (getAIAnalysis_routes e tr parse t st) = Inl (classifyError e g)"
    if "tr (length (outbound st)) c (legacyParams e t) = Inl g"
    using that
    by (simp add: getAIAnalysis_routes_configured [OF assms(1)] outerTry_routes_def)
  have b: "fst (getAIAnalysis e tr parse t st) = Inl (classifyError e g)"
    if "tr (length (outbound st)) c (legacyParams e t) = Inl g" and "\<not> paramMismatch g"
    using that
    by (simp add: getAIAnalysis_configured [OF assms(1)] requestWithFallback_eq ob outerTry_def)
  have c: "fst (getAIAnalysis e tr parse t st) =
      outerTry e parse (tr (Suc (length (outbound st))) c (alternateParams e t))"
    if "tr (length (outbound st)) c (legacyParams e t) = Inl g0" and "paramMismatch g0"
    using that
    by (simp add: getAIAnalysis_configured [OF assms(1)] requestWithFallback_eq ob)
  have d: "fst (getAIAnalysis e tr parse t st) = Inl (classifyError e g)"
    if "tr (length (outbound st)) c (legacyParams e t) = Inl g0" and "paramMismatch g0"
      and "tr (Suc (length (outbound st))) c (alternateParams e t) = Inl g"
    using c [OF that(1,2)] that(3) by (simp add: outerTry_def)
  show ?thesis
    using a b c d classifyError_404 classifyError_401 classifyError_other
      DeploymentNotFound_names_deployment
    by blast
qed

theorem transport_failure_classification_witness:
  "fst (getAIAnalysis env_full (tr_fail err_404) parse_example (Some ''hi'') st_fresh) =
     Inl (DeploymentNotFound env_full) \<and>
   err_message (DeploymentNotFound env_full) =
     Some ''Deployment 'gpt-4o' not found. Check your deployment name.'' \<and>
   fst (getAIAnalysis_routes env_full (tr_fail err_404) parse_example (Some ''hi'') st_fresh) =
     Inl (DeploymentNotFound env_full) \<and>
   fst (getAIAnalysis env_full (tr_fail err_429) parse_example (Some ''hi'') st_fresh) =
     Inl err_429 \<and>
   fst (getAIAnalysis env_full (tr_fail err_401) parse_example (Some ''hi'') st_fresh) =
     Inl AuthenticationFailed \<and>
   fst (getAIAnalysis_routes env_full (tr_new_model (completion ''stop'' ''{}'')) parse_example
     (Some ''hi'') st_fresh) = Inl err_unsupported"
proof -
  have g401: "tr_fail err_401 (length (outbound st_fresh)) client_full
      (legacyParams env_full (Some ''hi'')) = Inl err_401 \<and> \<not> paramMismatch err_401"
    by (simp add: tr_fail_def paramMismatch_def err_401_def)
  have s401: "js_or (err_response_status err_401) (err_status err_401) = Some 401 \<and>
      err_code err_401 \<noteq> Some ''OPENAI_NOT_CONFIGURED''"
    by (simp add: err_401_def js_or_def)
  have g404: "tr_fail err_404 (length (outbound st_fresh)) client_full
      (legacyParams env_full (Some ''hi'')) = Inl err_404 \<and> \<not> paramMismatch err_404"
    by (simp add: tr_fail_def paramMismatch_def err_404_def)
  have g429: "tr_fail err_429 (length (outbound st_fresh)) client_full
      (legacyParams env_full (Some ''hi'')) = Inl err_429 \<and> \<not> paramMismatch err_429"
    by (simp add: tr_fail_def paramMismatch_def err_429_def)
  have s404: "js_or (err_response_status err_404) (err_status err_404) = Some 404 \<and>
      err_code err_404 \<noteq> Some ''OPENAI_NOT_CONFIGURED''"
    by (simp add: err_404_def js_or_def)
  have s429: "js_or (err_response_status err_429) (err_status err_429) \<noteq> Some 404 \<and>
      js_or (err_response_status err_429) (err_status err_429) \<noteq> Some 401"
    by (simp add: err_429_def js_or_def)
  have s400: "js_or (err_response_status err_unsupported) (err_status err_unsupported) \<noteq> Some 404 \<and>
      js_or (err_response_status err_unsupported) (err_status err_unsupported) \<noteq> Some 401"
    by (simp add: err_unsupported_def js_or_def)
  have m: "err_message (DeploymentNotFound env_full) =
     Some ''Deployment 'gpt-4o' not found. Check your deployment name.''"
    by (simp add: DeploymentNotFound_def new_Error_def env_full_def tmpl_def)
  show ?thesis
    using transport_failure_classification [OF ensure_env_full, where tr = "tr_fail err_404"
        and g = err_404 and t = "Some ''hi''" and parse = parse_example]
      transport_failure_classification [OF ensure_env_full, where tr = "tr_fail err_429"
        and g = err_429 and t = "Some ''hi''" and parse = parse_example]
      transport_failure_classification [OF ensure_env_full, where tr = "tr_fail err_401"
        and g = err_401 and t = "Some ''hi''" and parse = parse_example]
      transport_failure_classification [OF ensure_env_full,
        where tr = "tr_new_model (completion ''stop'' ''{}'')"
        and g = err_unsupported and t = "Some ''hi''" and parse = parse_example]
      g401 g404 g429 s401 s404 s429 s400 m tr_new_model_legacy
    by simp
qed

text \<open>
  In the file with the retry, a first request refused with status 400 for \<^verbatim>\<open>max_tokens\<close>
  is neither mapped nor thrown again: the retry is answered and the call succeeds.
\<close>

theorem mismatch_failure_is_replaced:
  "tr_new_model (completion ''stop'' ''{}'') 0 client_full (legacyParams env_full (Some ''hi''))
     = Inl err_unsupported \<and>
   js_or (err_response_status err_unsupported) (err_status err_unsupported) = Some 400 \<and>
   fst (getAIAnalysis env_full (tr_new_model (completion ''stop'' ''{}'')) parse_example
     (Some ''hi'') st_fresh) = Inr (JObj [])"
proof -
  have "fst (getAIAnalysis env_full (tr_new_model (completion ''stop'' ''{}'')) parse_example
     (Some ''hi'') st_fresh) = Inr (JObj [])"
    unfolding getAIAnalysis_configured [OF ensure_env_full]
    by (simp add: requestWithFallback_eq tr_new_model_legacy tr_new_model_alternate
        paramMismatch_unsupported outerTry_stop_empty_object)
  then show ?thesis
    by (simp add: tr_new_model_legacy err_unsupported_def js_or_def)
qed

section \<open>A completion without a first choice\<close>

lemma MalformedResponse_needs_choice:
  assumes "validateResponse parse resp = Inl MalformedResponse"
  shows "\<exists>ch rest. choices resp = Some (ch # rest)"
  using assms
  by (auto simp: validateResponse_def MalformedResponse_def new_Error_def new_TypeError_def
      split: option.splits list.splits)

lemma validateResponse_no_choice:
  assumes "choices resp = None \<or> choices resp = Some []"
  shows "\<exists>m. validateResponse parse resp = Inl (new_TypeError m)"
  using assms by (auto simp: validateResponse_def)

lemma parseContent_no_choice:
  assumes "choices resp = None \<or> choices resp = Some []"
  shows "parseContent parse resp = Inl MalformedResponse"
  using assms by (auto simp: parseContent_def rawContent_def truthy_def)

text \<open>
  Claim C10. In the file with the retry, a completion whose \<^verbatim>\<open>choices\<close> is missing or
  empty makes the call throw the \<^verbatim>\<open>TypeError\<close> of the unguarded read of
  \<^verbatim>\<open>finish_reason\<close>, which the classification lets through, and not the missing-content
  error, which the guarded read alone would give and \<^verbatim>\<open>routes/analysis.js\<close> gives; the
  validation ends in the missing-content error only for a completion that has a first
  choice.
\<close>

theorem missing_choices_throw_TypeError:
  assumes "ensureOpenAIClient e st = (Inr c, st0)"
    and "tr (length (outbound st)) c (legacyParams e t) = Inr resp \<or>
         (\<exists>g. tr (length (outbound st)) c (legacyParams e t) = Inl g \<and> paramMismatch g \<and>
              tr (Suc (length (outbound st))) c (alternateParams e t) = Inr resp)"
    and "choices resp = None \<or> choices resp = Some []"
  shows "(\<exists>m. fst (getAIAnalysis e tr parse t st) = Inl (new_TypeError m)) \<and>
         fst (getAIAnalysis e tr parse t st) \<noteq> Inl MalformedResponse \<and>
         parseContent parse resp = Inl MalformedResponse \<and>
         (\<forall>r. validateResponse parse r = Inl MalformedResponse \<longrightarrow>
              (\<exists>ch rest. choices r = Some (ch # rest)))"
proof -
  have ob: "outbound st0 = outbound st"
    using assms(1) by (rule ensure_outbound)
  have req: "fst (requestWithFallback e tr c t st0) = Inr resp"
    using assms(2) by (auto simp: requestWithFallback_eq ob)
  obtain m where m: "validateResponse parse resp = Inl (new_TypeError m)"
    using validateResponse_no_choice [OF assms(3)] by blast
  have res: "fst (getAIAnalysis e tr parse t st) = Inl (new_TypeError m)"
    by (simp add: getAIAnalysis_configured [OF assms(1)] req outerTry_def m
        classifyError_new_TypeError)
  have ne: "new_TypeError m \<noteq> MalformedResponse"
    by (simp add: new_TypeError_def MalformedResponse_def new_Error_def)
  show ?thesis
    using res ne parseContent_no_choice [OF assms(3)] MalformedResponse_needs_choice
    by auto
qed

theorem missing_choices_throw_TypeError_witness:
  "fst (getAIAnalysis env_full (tr_const resp_no_choices) parse_example (Some ''hi'') st_fresh) =
     Inl (new_TypeError ''Cannot read properties of undefined (reading '0')'') \<and>
   fst (getAIAnalysis env_full (tr_new_model resp_empty_choices) parse_example (Some ''hi'')
       st_fresh) =
     Inl (new_TypeError ''Cannot read properties of undefined (reading 'finish_reason')'')"
proof -
  have b: "\<exists>g. tr_new_model resp_empty_choices (length (outbound st_fresh)) client_full
        (legacyParams env_full (Some ''hi'')) = Inl g \<and> paramMismatch g \<and>
      tr_new_model resp_empty_choices (Suc (length (outbound st_fresh))) client_full
        (alternateParams env_full (Some ''hi'')) = Inr resp_empty_choices"
    by (simp add: tr_new_model_legacy tr_new_model_alternate paramMismatch_unsupported)
  have c: "fst (getAIAnalysis env_full (tr_const resp_no_choices) parse_example (Some ''hi'')
      st_fresh) = Inl (new_TypeError ''Cannot read properties of undefined (reading '0')'')"
    unfolding getAIAnalysis_configured [OF ensure_env_full]
    by (simp add: requestWithFallback_eq tr_const_def outerTry_def validateResponse_def
        resp_no_choices_def classifyError_new_TypeError)
  have d: "fst (getAIAnalysis env_full (tr_new_model resp_empty_choices) parse_example
      (Some ''hi'') st_fresh) =
     Inl (new_TypeError ''Cannot read properties of undefined (reading 'finish_reason')'')"
    using missing_choices_throw_TypeError [OF ensure_env_full, where
        tr = "tr_new_model resp_empty_choices" and resp = resp_empty_choices
        and t = "Some ''hi''" and parse = parse_example] b
    by (auto simp: getAIAnalysis_configured [OF ensure_env_full] requestWithFallback_eq
        tr_new_model_legacy tr_new_model_alternate paramMismatch_unsupported outerTry_def
        validateResponse_def resp_empty_choices_def classifyError_new_TypeError)
  show ?thesis using c d by simp
qed

section \<open>Content that does not decode\<close>

lemma parseContent_invalid:
  assumes "rawContent resp = Some raw" and "raw \<noteq> []" and "parse raw = Inl parseErr"
  shows "parseContent parse resp = Inl InvalidJson"
  using assms by (simp add: parseContent_def truthy_def tmpl_def)

lemma classifyError_InvalidJson: "classifyError e InvalidJson = InvalidJson"
  by (simp add: InvalidJson_def classifyError_new_Error)

text \<open>
  Claim C7. A completion with a first choice whose content is a non-empty string that the
  decoder rejects (and, in the file with the retry, whose \<^verbatim>\<open>finish_reason\<close> is not
  \<^verbatim>\<open>length\<close>) makes the call fail with the invalid-JSON error. That error is a new one
  with a fixed message: it is the same for every decode error, and has no cause.
\<close>

theorem undecodable_content_is_InvalidJson:
  assumes "ensureOpenAIClient e st = (Inr c, st0)"
    and "choices resp = Some (ch # rest)"
    and "message ch = Some m"
    and "mcontent m = Some raw"
    and "raw \<noteq> []"
    and "parse raw = Inl parseErr"
  shows "(tr (length (outbound st)) c (legacyParams e t) = Inr resp \<longrightarrow>
            fst (getAIAnalysis_routes e tr parse t st) = Inl InvalidJson) \<and>
         ((tr (length (outbound st)) c (legacyParams e t) = Inr resp \<or>
           (\<exists>g. tr (length (outbound st)) c (legacyParams e t) = Inl g \<and> paramMismatch g \<and>
                tr (Suc (length (outbound st))) c (alternateParams e t) = Inr resp)) \<and>
          finish_reason ch \<noteq> Some ''length'' \<longrightarrow>
            fst (getAIAnalysis e tr parse t st) = Inl InvalidJson) \<and>
         InvalidJson = JsError ''Error''
           (Some ''Failed to parse AI response. Response was not valid JSON.'')
           None None None None"
proof -
  have ob: "outbound st0 = outbound st"
    using assms(1) by (rule ensure_outbound)
  have raw: "rawContent resp = Some raw"
    using assms(2,3,4) by (simp add: rawContent_def)
  have pc: "parseContent parse resp = Inl InvalidJson"
    using raw assms(5,6) by (rule parseContent_invalid)
  have a: "fst (getAIAnalysis_routes e tr parse t st) = Inl InvalidJson"
    if "tr (length (outbound st)) c (legacyParams e t) = Inr resp"
    using that
    by (simp add: getAIAnalysis_routes_configured [OF assms(1)] outerTry_routes_def pc
        classifyError_InvalidJson)
  have b: "fst (getAIAnalysis e tr parse t st) = Inl InvalidJson"
    if "tr (length (outbound st)) c (legacyParams e t) = Inr resp \<or>
           (\<exists>g. tr (length (outbound st)) c (legacyParams e t) = Inl g \<and> paramMismatch g \<and>
                tr (Suc (length (outbound st))) c (alternateParams e t) = Inr resp)"
      and "finish_reason ch \<noteq> Some ''length''"
  proof -
    have "fst (requestWithFallback e tr c t st0) = Inr resp"
      using that(1) by (auto simp: requestWithFallback_eq ob)
    then show ?thesis
      using that(2)
      by (simp add: getAIAnalysis_configured [OF assms(1)] outerTry_def validateResponse_def
          assms(2) pc classifyError_InvalidJson)
  qed
  show ?thesis
    using a b by (simp add: InvalidJson_def new_Error_def)
qed

theorem undecodable_content_is_InvalidJson_witness:
  "parse_example ''hello'' = Inl err_syntax \<and>
   fst (getAIAnalysis_routes env_full (tr_const (completion ''stop'' ''hello'')) parse_example
     (Some ''hi'') st_fresh) = Inl InvalidJson \<and>
   fst (getAIAnalysis env_full (tr_const (completion ''stop'' ''hello'')) parse_example
     (Some ''hi'') st_fresh) = Inl InvalidJson"
proof -
  have tr: "tr_const (completion ''stop'' ''hello'') (length (outbound st_fresh)) client_full
      (legacyParams env_full (Some ''hi'')) = Inr (completion ''stop'' ''hello'')"
    by (simp add: tr_const_def)
  have ch: "choices (completion ''stop'' ''hello'') =
      Some (\<lparr>finish_reason = Some ''stop'', message = Some \<lparr>mcontent = Some ''hello''\<rparr>\<rparr> # [])"
    by (simp add: completion_def)
  have p: "parse_example ''hello'' = Inl err_syntax"
    by (rule parse_example_hello)
  show ?thesis
    using undecodable_content_is_InvalidJson [OF ensure_env_full ch, where
        m = "\<lparr>mcontent = Some ''hello''\<rparr>" and raw = "''hello''" and parse = parse_example
        and parseErr = err_syntax and tr = "tr_const (completion ''stop'' ''hello'')"
        and t = "Some ''hi''"] tr p
    by simp
qed

text \<open>
  The error thrown for the content \<^verbatim>\<open>hello\<close> does not carry the decode error: it has no
  cause, and its message does not contain the message of the decode error.
\<close>

theorem InvalidJson_drops_decode_error:
  "parse_example ''hello'' = Inl err_syntax \<and>
   fst (getAIAnalysis env_full (tr_const (completion ''stop'' ''hello'')) parse_example
     (Some ''hi'') st_fresh) = Inl InvalidJson \<and>
   fst (getAIAnalysis_routes env_full (tr_const (completion ''stop'' ''hello'')) parse_example
     (Some ''hi'') st_fresh) = Inl InvalidJson \<and>
   \<not> carries InvalidJson err_syntax"
proof -
  have p: "parse_example ''hello'' = Inl err_syntax"
    by (rule parse_example_hello)
  have a: "fst (getAIAnalysis env_full (tr_const (completion ''stop'' ''hello''))
      parse_example (Some ''hi'') st_fresh) = Inl InvalidJson"
    unfolding getAIAnalysis_configured [OF ensure_env_full]
    by (simp add: requestWithFallback_eq tr_const_def outerTry_def validate_completion_stop
        parseContent_completion p classifyError_InvalidJson)
  have b: "fst (getAIAnalysis_routes env_full (tr_const (completion ''stop'' ''hello''))
      parse_example (Some ''hi'') st_fresh) = Inl InvalidJson"
    unfolding getAIAnalysis_routes_configured [OF ensure_env_full]
    by (simp add: tr_const_def outerTry_routes_def parseContent_completion p
        classifyError_InvalidJson)
  have c: "\<not> carries InvalidJson err_syntax"
    unfolding carries_def InvalidJson_def new_Error_def err_syntax_def str_includes_def
    by code_simp
  show ?thesis using p a b c by simp
qed

section \<open>The schema and what is returned\<close>

lemma validates_StringT: "validates (StringT en d) v \<Longrightarrow> \<exists>s. v = JStr s"
  by (cases v) auto

lemma map_of_member: "k \<in> fst ` set kvs \<Longrightarrow> \<exists>x. map_of kvs k = Some x"
  by (cases "map_of kvs k") (auto simp: map_of_eq_None_iff)

lemma validates_object_iff:
  "validates (ObjectT props req addl) (JObj kvs) \<longleftrightarrow>
     set req \<subseteq> fst ` set kvs \<and>
     (addl = Some False \<longrightarrow> fst ` set kvs \<subseteq> fst ` set props) \<and>
     (\<forall>k s x. (k, s) \<in> set props \<and> map_of kvs k = Some x \<longrightarrow> validates s x)"
proof -
  have a: "list_all (\<lambda>k. k \<in> fst ` set kvs) req \<longleftrightarrow> set req \<subseteq> fst ` set kvs"
    by (auto simp: list_all_iff)
  have b: "list_all (\<lambda>k. k \<in> fst ` set props) (map fst kvs) \<longleftrightarrow>
      fst ` set kvs \<subseteq> fst ` set props"
    by (auto simp: list_all_iff)
  have c: "list_all (\<lambda>(k, s). case map_of kvs k of None \<Rightarrow> True | Some x \<Rightarrow> validates s x) props
      \<longleftrightarrow> (\<forall>k s x. (k, s) \<in> set props \<and> map_of kvs k = Some x \<longrightarrow> validates s x)"
    by (auto simp: list_all_iff split: option.splits)
  show ?thesis
    unfolding validates.simps a b c by blast
qed



lemma validates_closed_object:
  assumes "validates (ObjectT props req (Some False)) (JObj kvs)"
  shows "set req \<subseteq> fst ` set kvs \<and> fst ` set kvs \<subseteq> fst ` set props \<and>
     (\<forall>k s x. (k, s) \<in> set props \<and> map_of kvs k = Some x \<longrightarrow> validates s x)"
  using assms unfolding validates_object_iff by simp

lemma validates_object_is_JObj:
  assumes "validates (ObjectT props req addl) v"
  shows "\<exists>kvs. v = JObj kvs"
  using assms by (cases v) simp_all


lemma closed_object_member:
  assumes "validates (ObjectT props req (Some False)) v"
    and "set req = fst ` set props"
    and "(k, s) \<in> set props"
  shows "\<exists>kvs x. v = JObj kvs \<and> fst ` set kvs = set req \<and> map_of kvs k = Some x \<and> validates s x"
proof -
  obtain kvs where kvs: "v = JObj kvs"
    using validates_object_is_JObj [OF assms(1)] by (rule exE)
  have vv: "validates (ObjectT props req (Some False)) (JObj kvs)"
    using assms(1) kvs by simp
  note v = validates_closed_object [OF vv]
  have sub1: "set req \<subseteq> fst ` set kvs"
    using v by (rule conjunct1)
  have sub2: "fst ` set kvs \<subseteq> fst ` set props"
    using v by (rule conjunct1 [OF conjunct2])
  have all: "\<forall>k s x. (k, s) \<in> set props \<and> map_of kvs k = Some x \<longrightarrow> validates s x"
    using v by (rule conjunct2 [OF conjunct2])
  have keys: "fst ` set kvs = set req"
    using sub1 sub2 assms(2) by (simp add: subset_antisym)
  have "fst (k, s) \<in> fst ` set props"
    using assms(3) by (rule imageI)
  then have "k \<in> fst ` set kvs"
    using assms(2) keys by simp
  then have "\<exists>x. map_of kvs k = Some x"
    by (rule map_of_member)
  then obtain x where x: "map_of kvs k = Some x"
    by (rule exE)
  have "(k, s) \<in> set props \<and> map_of kvs k = Some x"
    using assms(3) x by (rule conjI)
  then have "validates s x"
    using all by (elim allE impE)
  then show ?thesis
    using kvs keys x by (intro exI conjI)
qed


lemma closed_string_object:
  assumes "validates (ObjectT props req (Some False)) v"
    and "set req = fst ` set props"
    and "\<forall>p \<in> set props. \<exists>d. snd p = StringT None d"
  shows "\<exists>kvs. v = JObj kvs \<and> fst ` set kvs = set req \<and>
           (\<forall>k \<in> set req. \<exists>s. map_of kvs k = Some (JStr s))"
proof -
  obtain kvs where kvs: "v = JObj kvs"
    using validates_object_is_JObj [OF assms(1)] by (rule exE)
  have str: "fst ` set kvs = set req \<and> (\<exists>s. map_of kvs k = Some (JStr s))"
    if kreq: "k \<in> set req" for k
  proof -
    have "k \<in> fst ` set props"
      using kreq assms(2) by simp
    then obtain p where p: "p \<in> set props" and kp: "k = fst p"
      by (rule imageE)
    have "\<exists>d. snd p = StringT None d"
      using assms(3) p by (rule bspec)
    then obtain d where d: "snd p = StringT None d"
      by (rule exE)
    have "p = (k, StringT None d)"
      using kp d by (simp add: prod_eq_iff)
    then have mem: "(k, StringT None d) \<in> set props"
      using p by simp
    obtain kvs' x where k': "v = JObj kvs'" and keys: "fst ` set kvs' = set req"
      and x: "map_of kvs' k = Some x" and vx: "validates (StringT None d) x"
      using closed_object_member [OF assms(1,2) mem] by (elim exE conjE)
    have same: "kvs' = kvs"
      using k' kvs by simp
    obtain s where "x = JStr s"
      using validates_StringT [OF vx] by (rule exE)
    then show ?thesis
      using keys x same by simp
  qed
  have keys: "fst ` set kvs = set req"
  proof (cases req)
    case Nil
    then have "props = []"
      using assms(2) by simp
    then have "validates (ObjectT [] [] (Some False)) (JObj kvs)"
      using assms(1) kvs Nil by simp
    then have "fst ` set kvs \<subseteq> fst ` set ([] :: (string \<times> schema) list)"
      by (rule conjunct1 [OF conjunct2 [OF validates_closed_object]])
    then show ?thesis
      using Nil by simp
  next
    case (Cons k0 ks)
    then have "k0 \<in> set req" by simp
    then show ?thesis
      using str by simp
  qed
  show ?thesis
    using kvs keys str by simp
qed


lemma keyInformationSchema_closed:
  assumes "validates keyInformationSchema v"
  shows "\<exists>ki. v = JObj ki \<and>
           fst ` set ki =
             set [''orderNumber'', ''customerEmail'', ''productSKU'', ''issueDate'',
                  ''customerPhone''] \<and>
           (\<forall>k \<in> set [''orderNumber'', ''customerEmail'', ''productSKU'', ''issueDate'',
                   ''customerPhone'']. \<exists>s. map_of ki k = Some (JStr s))"
proof (rule closed_string_object [OF assms [unfolded keyInformationSchema_def]])
  show "set [''orderNumber'', ''customerEmail'', ''productSKU'', ''issueDate'', ''customerPhone'']
      = fst ` set
        [(''orderNumber'', StringT None (Some ''Extracted order number'')),
         (''customerEmail'', StringT None (Some ''Customer email address'')),
         (''productSKU'', StringT None (Some ''Product mentioned'')),
         (''issueDate'', StringT None (Some ''When issue occurred'')),
         (''customerPhone'', StringT None (Some ''Customer phone number''))]"
    by (simp only: list.set image_insert image_empty fst_conv)
  show "\<forall>p \<in> set
        [(''orderNumber'', StringT None (Some ''Extracted order number'')),
         (''customerEmail'', StringT None (Some ''Customer email address'')),
         (''productSKU'', StringT None (Some ''Product mentioned'')),
         (''issueDate'', StringT None (Some ''When issue occurred'')),
         (''customerPhone'', StringT None (Some ''Customer phone number''))].
      \<exists>d. snd p = StringT None d"
    by (simp only: list.set ball_simps snd_conv schema.inject simp_thms)
qed


lemma customerServiceSchema_closed:
  assumes "validates customerServiceSchema v"
  shows "\<exists>kvs ki. v = JObj kvs \<and>
           fst ` set kvs =
             set [''sentiment'', ''escalationRisk'', ''primaryIntent'', ''keyInformation'',
                  ''suggestedActions'', ''commitments'', ''confidenceScore'', ''summary''] \<and>
           map_of kvs ''keyInformation'' = Some (JObj ki) \<and>
           fst ` set ki =
             set [''orderNumber'', ''customerEmail'', ''productSKU'', ''issueDate'',
                  ''customerPhone''] \<and>
           (\<forall>k \<in> set [''orderNumber'', ''customerEmail'', ''productSKU'', ''issueDate'',
                   ''customerPhone'']. \<exists>s. map_of ki k = Some (JStr s))"
proof -
  have "\<exists>kvs x. v = JObj kvs \<and>
      fst ` set kvs = set [''sentiment'', ''escalationRisk'', ''primaryIntent'',
        ''keyInformation'', ''suggestedActions'', ''commitments'', ''confidenceScore'',
        ''summary''] \<and>
      map_of kvs ''keyInformation'' = Some x \<and> validates keyInformationSchema x"
  proof (rule closed_object_member [OF assms [unfolded customerServiceSchema_def]])
    show "set [''sentiment'', ''escalationRisk'', ''primaryIntent'', ''keyInformation'',
        ''suggestedActions'', ''commitments'', ''confidenceScore'', ''summary''] =
      fst ` set
       [(''sentiment'',
         StringT (Some [''positive'', ''neutral'', ''negative'', ''frustrated''])
           (Some ''Overall customer sentiment'')),
        (''escalationRisk'',
         StringT (Some [''low'', ''medium'', ''high'']) (Some ''Risk of customer escalation'')),
        (''primaryIntent'', StringT None (Some ''Main reason for customer contact'')),
        (''keyInformation'', keyInformationSchema),
        (''suggestedActions'', ArrayT (StringT None None) (Some ''Recommended next steps'')),
        (''commitments'', ArrayT (StringT None None) (Some ''Promises made to customer'')),
        (''confidenceScore'', NumberT (Some 0) (Some 1) (Some ''Analysis confidence level'')),
        (''summary'', StringT None (Some ''Brief case summary for CRM''))]"
      by (simp only: list.set image_insert image_empty fst_conv)
    show "(''keyInformation'', keyInformationSchema) \<in> set
       [(''sentiment'',
         StringT (Some [''positive'', ''neutral'', ''negative'', ''frustrated''])
           (Some ''Overall customer sentiment'')),
        (''escalationRisk'',
         StringT (Some [''low'', ''medium'', ''high'']) (Some ''Risk of customer escalation'')),
        (''primaryIntent'', StringT None (Some ''Main reason for customer contact'')),
        (''keyInformation'', keyInformationSchema),
        (''suggestedActions'', ArrayT (StringT None None) (Some ''Recommended next steps'')),
        (''commitments'', ArrayT (StringT None None) (Some ''Promises made to customer'')),
        (''confidenceScore'', NumberT (Some 0) (Some 1) (Some ''Analysis confidence level'')),
        (''summary'', StringT None (Some ''Brief case summary for CRM''))]"
      by (simp only: list.set insert_iff simp_thms)
  qed
  then obtain kvs x where kvs: "v = JObj kvs"
    and keys: "fst ` set kvs = set [''sentiment'', ''escalationRisk'', ''primaryIntent'',
        ''keyInformation'', ''suggestedActions'', ''commitments'', ''confidenceScore'',
        ''summary'']"
    and x: "map_of kvs ''keyInformation'' = Some x"
    and vx: "validates keyInformationSchema x"
    by (elim exE conjE)
  obtain ki where ki: "x = JObj ki"
    and kkeys: "fst ` set ki = set [''orderNumber'', ''customerEmail'', ''productSKU'',
        ''issueDate'', ''customerPhone'']"
    and kstr: "\<forall>k \<in> set [''orderNumber'', ''customerEmail'', ''productSKU'', ''issueDate'',
                   ''customerPhone'']. \<exists>s. map_of ki k = Some (JStr s)"
    using keyInformationSchema_closed [OF vx] by (elim exE conjE)
  have x': "map_of kvs ''keyInformation'' = Some (JObj ki)"
    using x ki by simp
  show ?thesis
    using kvs keys x' kkeys kstr by (intro exI conjI)
qed

lemma analysis_value_validates: "validates customerServiceSchema analysis_value"
  unfolding customerServiceSchema_def keyInformationSchema_def analysis_value_def
  by simp

lemma empty_object_invalid: "\<not> validates customerServiceSchema (JObj [])"
  unfolding customerServiceSchema_def by simp


lemma parseContent_Inr:
  assumes "parseContent parse resp = Inr a"
  shows "\<exists>raw. rawContent resp = Some raw \<and> parse raw = Inr a"
  using assms
  by (cases "rawContent resp")
    (auto simp: parseContent_def truthy_def tmpl_def split: if_splits sum.splits)

lemma validateResponse_Inr:
  assumes "validateResponse parse resp = Inr a"
  shows "parseContent parse resp = Inr a"
  using assms
  by (auto simp: validateResponse_def split: option.splits list.splits if_splits)

lemma outerTry_Inr:
  assumes "outerTry e parse r = Inr a"
  shows "\<exists>resp raw. r = Inr resp \<and> rawContent resp = Some raw \<and> parse raw = Inr a"
proof (cases r)
  case (Inl g)
  then show ?thesis using assms by (simp add: outerTry_def)
next
  case (Inr resp)
  then have "validateResponse parse resp = Inr a"
    using assms by (simp add: outerTry_def split: sum.splits)
  then show ?thesis
    using Inr parseContent_Inr [OF validateResponse_Inr] by simp
qed

lemma outerTry_routes_Inr:
  assumes "outerTry_routes e parse r = Inr a"
  shows "\<exists>resp raw. r = Inr resp \<and> rawContent resp = Some raw \<and> parse raw = Inr a"
proof (cases r)
  case (Inl g)
  then show ?thesis using assms by (simp add: outerTry_routes_def)
next
  case (Inr resp)
  then have "parseContent parse resp = Inr a"
    using assms by (simp add: outerTry_routes_def split: sum.splits)
  then show ?thesis
    using Inr parseContent_Inr by simp
qed

lemma success_is_configured:
  assumes "getAIAnalysis e tr parse t st = (Inr a, st') \<or>
           getAIAnalysis_routes e tr parse t st = (Inr a, st')"
  shows "\<exists>c st0. ensureOpenAIClient e st = (Inr c, st0)"
proof (cases "ensureOpenAIClient e st")
  case (Pair r st0)
  then show ?thesis
    using assms
    by (cases r) (auto simp: getAIAnalysis_def getAIAnalysis_routes_def)
qed

lemma getAIAnalysis_routes_success:
  assumes "getAIAnalysis_routes e tr parse t st = (Inr a, st')"
  shows "\<exists>c resp raw. rawContent resp = Some raw \<and> parse raw = Inr a \<and>
           sent st st' = [(c, legacyParams e t)] \<and>
           tr (length (outbound st)) c (legacyParams e t) = Inr resp \<and>
           length (outbound st') = Suc (length (outbound st))"
proof -
  obtain c st0 where cfg: "ensureOpenAIClient e st = (Inr c, st0)"
    using success_is_configured assms by blast
  have eq: "outerTry_routes e parse (tr (length (outbound st)) c (legacyParams e t)) = Inr a"
    and st': "st' = st0\<lparr>outbound := outbound st @ [(c, legacyParams e t)]\<rparr>"
    using assms unfolding getAIAnalysis_routes_configured [OF cfg] by simp_all
  obtain resp raw where "tr (length (outbound st)) c (legacyParams e t) = Inr resp"
    "rawContent resp = Some raw" "parse raw = Inr a"
    using outerTry_routes_Inr [OF eq] by blast
  then show ?thesis
    using st' by (auto simp: sent_def)
qed

lemma getAIAnalysis_success:
  assumes "getAIAnalysis e tr parse t st = (Inr a, st')"
  shows "\<exists>c resp raw. rawContent resp = Some raw \<and> parse raw = Inr a \<and>
           ((sent st st' = [(c, legacyParams e t)] \<and>
             tr (length (outbound st)) c (legacyParams e t) = Inr resp \<and>
             length (outbound st') = Suc (length (outbound st))) \<or>
            (sent st st' = [(c, legacyParams e t), (c, alternateParams e t)] \<and>
             tr (Suc (length (outbound st))) c (alternateParams e t) = Inr resp \<and>
             length (outbound st') = Suc (Suc (length (outbound st)))))"
proof -
  obtain c st0 where cfg: "ensureOpenAIClient e st = (Inr c, st0)"
    using success_is_configured assms by blast
  have ob: "outbound st0 = outbound st"
    using cfg by (rule ensure_outbound)
  have eq: "outerTry e parse (fst (requestWithFallback e tr c t st0)) = Inr a"
    and st': "st' = snd (requestWithFallback e tr c t st0)"
    using assms unfolding getAIAnalysis_configured [OF cfg] by simp_all
  obtain resp raw where r: "fst (requestWithFallback e tr c t st0) = Inr resp"
    and raw: "rawContent resp = Some raw" "parse raw = Inr a"
    using outerTry_Inr [OF eq] by blast
  show ?thesis
  proof (cases "tr (length (outbound st)) c (legacyParams e t)")
    case (Inr resp1)
    then have "resp1 = resp"
      and "st' = st0\<lparr>outbound := outbound st @ [(c, legacyParams e t)]\<rparr>"
      using r st' by (simp_all add: requestWithFallback_eq ob)
    then show ?thesis
      using Inr raw by (auto simp: sent_def)
  next
    case (Inl g)
    show ?thesis
    proof (cases "paramMismatch g")
      case True
      then have "tr (Suc (length (outbound st))) c (alternateParams e t) = Inr resp"
        and "st' = st0\<lparr>outbound := outbound st @
               [(c, legacyParams e t), (c, alternateParams e t)]\<rparr>"
        using r st' Inl by (simp_all add: requestWithFallback_eq ob)
      then show ?thesis
        using raw by (auto simp: sent_def)
    next
      case False
      then show ?thesis
        using r Inl by (simp add: requestWithFallback_eq ob)
    qed
  qed
qed


lemma response_format_sent:
  "response_format (legacyParams e t) =
     \<lparr>rtype = ''json_schema'',
      json_schema = \<lparr>name = ''customer_service_analysis'', strict = True,
                     schema = customerServiceSchema\<rparr>\<rparr> \<and>
   response_format (alternateParams e t) =
     \<lparr>rtype = ''json_schema'',
      json_schema = \<lparr>name = ''customer_service_analysis'', strict = True,
                     schema = customerServiceSchema\<rparr>\<rparr>"
  by (simp add: legacyParams_def alternateParams_def baseParams_def)

text \<open>
  Claim C4. Every request of a call names \<^verbatim>\<open>customerServiceSchema\<close> as a strict JSON
  schema, and the analysis a call returns is what the content of the completion that
  answered its last request decodes to, as it is: nothing checks it against the schema. So
  the analysis has the closed shape (an object with exactly the eight fields, whose
  \<^verbatim>\<open>keyInformation\<close> is an object with exactly the five fields, all strings) when the
  decoded content validates against the schema, which is up to the provider.
\<close>

theorem returned_analysis_is_decoded_content:
  assumes "getAIAnalysis e tr parse t st = (Inr a, st') \<or>
           getAIAnalysis_routes e tr parse t st = (Inr a, st')"
  shows "(\<exists>c p resp raw. sent st st' \<noteq> [] \<and> last (sent st st') = (c, p) \<and>
            tr (length (outbound st') - 1) c p = Inr resp \<and>
            rawContent resp = Some raw \<and> parse raw = Inr a) \<and>
         (\<forall>cp \<in> set (sent st st'). response_format (snd cp) =
            \<lparr>rtype = ''json_schema'',
             json_schema = \<lparr>name = ''customer_service_analysis'', strict = True,
                            schema = customerServiceSchema\<rparr>\<rparr>) \<and>
         (validates customerServiceSchema a \<longrightarrow>
            (\<exists>kvs ki. a = JObj kvs \<and>
               fst ` set kvs =
                 set [''sentiment'', ''escalationRisk'', ''primaryIntent'', ''keyInformation'',
                      ''suggestedActions'', ''commitments'', ''confidenceScore'', ''summary''] \<and>
               map_of kvs ''keyInformation'' = Some (JObj ki) \<and>
               fst ` set ki =
                 set [''orderNumber'', ''customerEmail'', ''productSKU'', ''issueDate'',
                      ''customerPhone''] \<and>
               (\<forall>k \<in> set [''orderNumber'', ''customerEmail'', ''productSKU'', ''issueDate'',
                       ''customerPhone'']. \<exists>s. map_of ki k = Some (JStr s))))"
proof -
  obtain c resp raw where raw: "rawContent resp = Some raw" "parse raw = Inr a"
    and sent: "(sent st st' = [(c, legacyParams e t)] \<and>
             tr (length (outbound st)) c (legacyParams e t) = Inr resp \<and>
             length (outbound st') = Suc (length (outbound st))) \<or>
            (sent st st' = [(c, legacyParams e t), (c, alternateParams e t)] \<and>
             tr (Suc (length (outbound st))) c (alternateParams e t) = Inr resp \<and>
             length (outbound st') = Suc (Suc (length (outbound st))))"
    using assms getAIAnalysis_success [of e tr parse t st a st']
      getAIAnalysis_routes_success [of e tr parse t st a st']
    by blast
  have first: "\<exists>c p resp raw. sent st st' \<noteq> [] \<and> last (sent st st') = (c, p) \<and>
            tr (length (outbound st') - 1) c p = Inr resp \<and>
            rawContent resp = Some raw \<and> parse raw = Inr a"
    using sent raw by auto
  have second: "\<forall>cp \<in> set (sent st st'). response_format (snd cp) =
            \<lparr>rtype = ''json_schema'',
             json_schema = \<lparr>name = ''customer_service_analysis'', strict = True,
                            schema = customerServiceSchema\<rparr>\<rparr>"
    using sent response_format_sent [of e t] by auto
  show ?thesis
    using first second customerServiceSchema_closed [of a] by blast
qed

lemma analysis_text_nonempty: "analysis_text \<noteq> []"
  by (simp add: analysis_text_def)

theorem returned_analysis_is_decoded_content_witness:
  "fst (getAIAnalysis env_full (tr_const (completion ''stop'' analysis_text)) parse_example
     (Some ''hi'') st_fresh) = Inr analysis_value \<and>
   validates customerServiceSchema analysis_value \<and>
   (\<exists>kvs ki. analysis_value = JObj kvs \<and>
      map_of kvs ''keyInformation'' = Some (JObj ki) \<and>
      fst ` set ki =
        set [''orderNumber'', ''customerEmail'', ''productSKU'', ''issueDate'',
             ''customerPhone''])"
proof -
  have res: "fst (getAIAnalysis env_full (tr_const (completion ''stop'' analysis_text))
      parse_example (Some ''hi'') st_fresh) = Inr analysis_value"
    unfolding getAIAnalysis_configured [OF ensure_env_full]
    by (simp add: requestWithFallback_eq tr_const_def outerTry_def validate_completion_stop
        parseContent_completion [OF analysis_text_nonempty] parse_example_analysis)
  then have "getAIAnalysis env_full (tr_const (completion ''stop'' analysis_text))
      parse_example (Some ''hi'') st_fresh =
     (Inr analysis_value,
      snd (getAIAnalysis env_full (tr_const (completion ''stop'' analysis_text))
        parse_example (Some ''hi'') st_fresh))"
    by (simp add: prod_eq_iff)
  then show ?thesis
    using returned_analysis_is_decoded_content [where a = analysis_value
        and e = env_full and tr = "tr_const (completion ''stop'' analysis_text)"
        and parse = parse_example and t = "Some ''hi''" and st = st_fresh]
      res analysis_value_validates
    by blast
qed

text \<open>
  A provider that answers \<^verbatim>\<open>{}\<close>: the call returns the empty object, which has none of
  the eight fields.
\<close>

theorem unvalidated_analysis_returned:
  "fst (getAIAnalysis_routes env_full (tr_const (completion ''stop'' ''{}'')) parse_example
     (Some ''hi'') st_fresh) = Inr (JObj []) \<and>
   fst (getAIAnalysis env_full (tr_const (completion ''stop'' ''{}'')) parse_example
     (Some ''hi'') st_fresh) = Inr (JObj []) \<and>
   \<not> validates customerServiceSchema (JObj [])"
proof -
  have a: "fst (getAIAnalysis_routes env_full (tr_const (completion ''stop'' ''{}''))
      parse_example (Some ''hi'') st_fresh) = Inr (JObj [])"
    unfolding getAIAnalysis_routes_configured [OF ensure_env_full]
    by (simp add: tr_const_def outerTry_routes_def parseContent_completion parse_example_def)
  have b: "fst (getAIAnalysis env_full (tr_const (completion ''stop'' ''{}''))
      parse_example (Some ''hi'') st_fresh) = Inr (JObj [])"
    unfolding getAIAnalysis_configured [OF ensure_env_full]
    by (simp add: requestWithFallback_eq tr_const_def outerTry_stop_empty_object)
  show ?thesis
    using a b empty_object_invalid by simp
qed

section \<open>The client, once built\<close>

lemma ensure_kept:
  assumes "openaiClient st = Some c"
  shows "ensureOpenAIClient e st = (Inr c, st)"
  using assms by (simp add: ensure_Inr initializeOpenAI_kept)

lemma model_sent:
  "model (legacyParams e t) = AZURE_OPENAI_DEPLOYMENT e \<and>
   model (alternateParams e t) = AZURE_OPENAI_DEPLOYMENT e"
  by (simp add: legacyParams_def alternateParams_def baseParams_def)

lemma calls_of_built_client:
  assumes "openaiClient st = Some c"
  shows "openaiClient (snd (getAIAnalysis e tr parse t st)) = Some c \<and>
         (sent st (snd (getAIAnalysis e tr parse t st)) = [(c, legacyParams e t)] \<or>
          sent st (snd (getAIAnalysis e tr parse t st)) =
            [(c, legacyParams e t), (c, alternateParams e t)]) \<and>
         openaiClient (snd (getAIAnalysis_routes e tr parse t st)) = Some c \<and>
         sent st (snd (getAIAnalysis_routes e tr parse t st)) = [(c, legacyParams e t)]"
proof -
  note cfg = ensure_kept [OF assms, of e]
  have a: "openaiClient (snd (getAIAnalysis e tr parse t st)) = Some c \<and>
         (sent st (snd (getAIAnalysis e tr parse t st)) = [(c, legacyParams e t)] \<or>
          sent st (snd (getAIAnalysis e tr parse t st)) =
            [(c, legacyParams e t), (c, alternateParams e t)])"
    unfolding getAIAnalysis_configured [OF cfg]
    using assms
    by (simp add: requestWithFallback_eq sent_def split: sum.splits)
  have b: "openaiClient (snd (getAIAnalysis_routes e tr parse t st)) = Some c \<and>
         sent st (snd (getAIAnalysis_routes e tr parse t st)) = [(c, legacyParams e t)]"
    unfolding getAIAnalysis_routes_configured [OF cfg]
    using assms by (simp add: sent_def)
  show ?thesis using a b by simp
qed

text \<open>
  Claim C8. Initialising twice is initialising once. Once there is a client, initialising
  again changes nothing, whatever the environment has become, and every request of a later
  call is sent by that client, with the endpoint, key and deployment it was built from;
  the \<^verbatim>\<open>model\<close> of a request is the deployment in the environment of that call, the same
  when the environment is.
\<close>

theorem client_configuration_idempotent:
  "initializeOpenAI e (initializeOpenAI e st) = initializeOpenAI e st \<and>
   getAIAnalysis e tr parse t (initializeOpenAI e (initializeOpenAI e st)) =
     getAIAnalysis e tr parse t (initializeOpenAI e st) \<and>
   (openaiClient st = None \<and> truthy (AZURE_OPENAI_ENDPOINT e) \<and> truthy (AZURE_OPENAI_KEY e) \<longrightarrow>
      openaiClient (initializeOpenAI e st) = Some
        \<lparr>apiKey = tmpl (AZURE_OPENAI_KEY e),
         baseURL = strip_trailing_slash (tmpl (AZURE_OPENAI_ENDPOINT e)) @
           ''/openai/deployments/'' @ tmpl (AZURE_OPENAI_DEPLOYMENT e),
         defaultQuery = [(''api-version'', ''2024-08-01-preview'')],
         defaultHeaders = [(''api-key'', tmpl (AZURE_OPENAI_KEY e))]\<rparr>) \<and>
   (openaiClient st = Some c \<longrightarrow>
      initializeOpenAI e' st = st \<and>
      openaiClient (snd (getAIAnalysis e' tr parse t st)) = Some c \<and>
      openaiClient (snd (getAIAnalysis_routes e' tr parse t st)) = Some c \<and>
      (\<forall>cp \<in> set (sent st (snd (getAIAnalysis e' tr parse t st))).
          fst cp = c \<and> model (snd cp) = AZURE_OPENAI_DEPLOYMENT e') \<and>
      (\<forall>cp \<in> set (sent st (snd (getAIAnalysis_routes e' tr parse t st))).
          fst cp = c \<and> model (snd cp) = AZURE_OPENAI_DEPLOYMENT e'))"
proof -
  have built: "openaiClient (initializeOpenAI e st) = Some
        \<lparr>apiKey = tmpl (AZURE_OPENAI_KEY e),
         baseURL = strip_trailing_slash (tmpl (AZURE_OPENAI_ENDPOINT e)) @
           ''/openai/deployments/'' @ tmpl (AZURE_OPENAI_DEPLOYMENT e),
         defaultQuery = [(''api-version'', ''2024-08-01-preview'')],
         defaultHeaders = [(''api-key'', tmpl (AZURE_OPENAI_KEY e))]\<rparr>"
    if "openaiClient st = None" "truthy (AZURE_OPENAI_ENDPOINT e)" "truthy (AZURE_OPENAI_KEY e)"
    using that by (simp add: initializeOpenAI_def Let_def)
  have later: "initializeOpenAI e' st = st \<and>
      openaiClient (snd (getAIAnalysis e' tr parse t st)) = Some c \<and>
      openaiClient (snd (getAIAnalysis_routes e' tr parse t st)) = Some c \<and>
      (\<forall>cp \<in> set (sent st (snd (getAIAnalysis e' tr parse t st))).
          fst cp = c \<and> model (snd cp) = AZURE_OPENAI_DEPLOYMENT e') \<and>
      (\<forall>cp \<in> set (sent st (snd (getAIAnalysis_routes e' tr parse t st))).
          fst cp = c \<and> model (snd cp) = AZURE_OPENAI_DEPLOYMENT e')"
    if c: "openaiClient st = Some c"
    using calls_of_built_client [OF c, of e' tr parse t] initializeOpenAI_kept [OF c, of e']
      model_sent [of e' t]
    by auto
  show ?thesis
    using built later by (simp add: initializeOpenAI_idem)
qed

theorem client_configuration_idempotent_witness:
  "openaiClient (initializeOpenAI env_full st_fresh) = Some client_full \<and>
   initializeOpenAI env_other (initializeOpenAI env_full st_fresh) =
     initializeOpenAI env_full st_fresh \<and>
   sent (initializeOpenAI env_full st_fresh)
     (snd (getAIAnalysis env_other (tr_fail err_429) parse_example (Some ''hi'')
        (initializeOpenAI env_full st_fresh))) =
     [(client_full, legacyParams env_other (Some ''hi''))]"
proof -
  have c: "openaiClient (initializeOpenAI env_full st_fresh) = Some client_full"
    using ensure_env_full by (simp add: ensure_Inr)
  have np: "\<not> paramMismatch err_429"
    by (simp add: paramMismatch_def err_429_def)
  have s: "sent (initializeOpenAI env_full st_fresh)
     (snd (getAIAnalysis env_other (tr_fail err_429) parse_example (Some ''hi'')
        (initializeOpenAI env_full st_fresh))) =
     [(client_full, legacyParams env_other (Some ''hi''))]"
    unfolding getAIAnalysis_configured [OF ensure_kept [OF c]]
    by (simp add: requestWithFallback_eq tr_fail_def np sent_def)
  show ?thesis
    using client_configuration_idempotent [where st = "initializeOpenAI env_full st_fresh"
        and c = client_full and e' = env_other and e = env_full] c s
    by simp
qed

section \<open>The route's reply to a failure\<close>






end
